theory Spec2Isabelle
  imports Complex_Main
begin

section \<open>Values\<close>

text \<open>
  The program computes with IEEE doubles (Python floats, numpy float64 cells of pandas
  frames). The model keeps finite numbers as reals, so rounding is not represented, and
  adds the three non-finite values, since the code's guards are comparisons that a NaN
  fails; signed zeros are not distinguished. Arithmetic follows numpy: dividing by zero
  yields an infinity or NaN and does not raise.
\<close>

datatype fnum = Num real | PosInf | NegInf | NaN

datatype error =
    KeyError string
  | ValueError string
  | OverflowError
  | ZeroDivisionError

fun fneg :: "fnum \<Rightarrow> fnum" where
  "fneg (Num a) = Num (- a)"
| "fneg PosInf = NegInf"
| "fneg NegInf = PosInf"
| "fneg NaN = NaN"

fun fadd :: "fnum \<Rightarrow> fnum \<Rightarrow> fnum" where
  "fadd (Num a) (Num b) = Num (a + b)"
| "fadd NaN _ = NaN"
| "fadd _ NaN = NaN"
| "fadd PosInf NegInf = NaN"
| "fadd NegInf PosInf = NaN"
| "fadd PosInf _ = PosInf"
| "fadd NegInf _ = NegInf"
| "fadd _ PosInf = PosInf"
| "fadd _ NegInf = NegInf"

definition fsub :: "fnum \<Rightarrow> fnum \<Rightarrow> fnum" where
  "fsub a b = fadd a (fneg b)"

fun fsign :: "fnum \<Rightarrow> int" where
  "fsign (Num a) = (if a < 0 then - 1 else if a = 0 then 0 else 1)"
| "fsign PosInf = 1"
| "fsign NegInf = - 1"
| "fsign NaN = 0"

definition signed_inf :: "int \<Rightarrow> fnum" where
  "signed_inf s = (if s = 0 then NaN else if 0 < s then PosInf else NegInf)"

fun fmul :: "fnum \<Rightarrow> fnum \<Rightarrow> fnum" where
  "fmul (Num a) (Num b) = Num (a * b)"
| "fmul NaN _ = NaN"
| "fmul _ NaN = NaN"
| "fmul a b = signed_inf (fsign a * fsign b)"

fun fdiv :: "fnum \<Rightarrow> fnum \<Rightarrow> fnum" where
  "fdiv (Num a) (Num b) = (if b = 0 then signed_inf (fsign (Num a)) else Num (a / b))"
| "fdiv NaN _ = NaN"
| "fdiv _ NaN = NaN"
| "fdiv (Num a) _ = Num 0"
| "fdiv a (Num b) = signed_inf (fsign a * (if b < 0 then - 1 else 1))"
| "fdiv _ _ = NaN"

fun fsqrt :: "fnum \<Rightarrow> fnum" where
  "fsqrt (Num a) = (if a < 0 then NaN else Num (sqrt a))"
| "fsqrt PosInf = PosInf"
| "fsqrt NegInf = NaN"
| "fsqrt NaN = NaN"

text \<open>Comparisons: every comparison with NaN is false, except \<open>!=\<close>.\<close>

fun flt :: "fnum \<Rightarrow> fnum \<Rightarrow> bool" where
  "flt (Num a) (Num b) = (a < b)"
| "flt NaN _ = False"
| "flt _ NaN = False"
| "flt NegInf b = (b \<noteq> NegInf)"
| "flt a PosInf = (a \<noteq> PosInf)"
| "flt _ _ = False"

definition feq :: "fnum \<Rightarrow> fnum \<Rightarrow> bool" where
  "feq a b = (a = b \<and> a \<noteq> NaN)"

definition fle :: "fnum \<Rightarrow> fnum \<Rightarrow> bool" where
  "fle a b = (flt a b \<or> feq a b)"

definition fgt :: "fnum \<Rightarrow> fnum \<Rightarrow> bool" where
  "fgt a b = flt b a"

definition fge :: "fnum \<Rightarrow> fnum \<Rightarrow> bool" where
  "fge a b = fle b a"

definition isnan :: "fnum \<Rightarrow> bool" where
  "isnan a = (a = NaN)"

text \<open>Python's \<open>int(x)\<close> on a finite float truncates towards zero.\<close>

definition py_int :: "real \<Rightarrow> int" where
  "py_int x = (if 0 \<le> x then \<lfloor>x\<rfloor> else \<lceil>x\<rceil>)"

section \<open>Data model\<close>

datatype timestamp = Timestamp (year: int) (month: nat) (day: nat)

text \<open>
  A row of the price frame: its index entry and the only price column the modelled code
  reads. The bar's numeric fields are non-null (the callers fill missing values), so the
  close is a real.
\<close>

record bar =
  date :: timestamp
  close :: real

text \<open>
  A row of the frame a strategy returns. \<open>signal = None\<close> stands for a frame without a
  \<open>'signal'\<close> column, where \<open>row.get('signal', 0)\<close> takes its default. Strategies extend
  this record with their indicator columns.
\<close>

record row = bar +
  signal :: "int option"

datatype action = BUY | SELL

record trade =
  trade_date :: timestamp
  action :: action
  price :: real
  quantity :: int
  trade_value :: real
  trade_commission :: real
  pnl :: "real option"

record snapshot =
  snap_date :: timestamp
  portfolio_value :: real
  snap_cash :: real
  holdings_value :: real
  returns :: fnum

record engine =
  initial_capital :: real
  commission :: real
  max_position_size :: real
  stop_loss_pct :: real
  take_profit_pct :: real
  max_risk_per_trade :: real

text \<open>The constructor's defaults.\<close>

definition default_engine :: engine where
  "default_engine = \<lparr>initial_capital = 10000, commission = 1 / 1000,
     max_position_size = 1 / 10, stop_loss_pct = 5 / 100, take_profit_pct = 15 / 100,
     max_risk_per_trade = 2 / 100\<rparr>"

text \<open>
  The state the loop of \<open>run_backtest\<close> carries: the \<open>portfolio\<close> dictionary's cash and
  holdings, the two lists it appends to, and \<open>prev_portfolio_value\<close>. (The dictionary's
  three other lists are written and never read.)
\<close>

record portfolio =
  cash :: real
  holdings :: int
  st_trades :: "trade list"
  st_equity :: "snapshot list"
  prev_portfolio_value :: real

record backtest_result =
  equity_curve :: "snapshot list"
  trades :: "trade list"
  final_portfolio_value :: real
  result_initial_capital :: real

section \<open>The simulation engine\<close>

definition signal_of :: "'a row_scheme \<Rightarrow> int" where
  "signal_of r = (case signal r of None \<Rightarrow> 0 | Some v \<Rightarrow> v)"

text \<open>
  \<open>int(available_cash / (current_price * (1 + commission)))\<close>: the quotient is a numpy
  division, so a zero divisor gives an infinity or NaN, which \<open>int\<close> refuses.
\<close>

definition shares_to_buy :: "engine \<Rightarrow> real \<Rightarrow> real \<Rightarrow> error + int" where
  "shares_to_buy eng c current_price =
     (let available_cash = c * (95 / 100);
          d = current_price * (1 + commission eng)
      in if d = 0
         then (if available_cash = 0 then Inl (ValueError ''cannot convert float NaN to integer'')
               else Inl OverflowError)
         else Inr (py_int (available_cash / d)))"

definition buy :: "engine \<Rightarrow> portfolio \<Rightarrow> 'a row_scheme \<Rightarrow> int \<Rightarrow> portfolio" where
  "buy eng p r n =
     (let cost = real_of_int n * close r * (1 + commission eng)
      in p\<lparr>cash := cash p - cost,
           holdings := holdings p + n,
           st_trades := st_trades p @
             [\<lparr>trade_date = date r, action = BUY, price = close r, quantity = n,
               trade_value = cost, trade_commission = cost * commission eng, pnl = None\<rparr>]\<rparr>)"

definition sell :: "engine \<Rightarrow> portfolio \<Rightarrow> 'a row_scheme \<Rightarrow> portfolio" where
  "sell eng p r =
     (let shares_to_sell = holdings p;
          proceeds = real_of_int shares_to_sell * close r * (1 - commission eng)
      in p\<lparr>cash := cash p + proceeds,
           st_trades := st_trades p @
             [\<lparr>trade_date = date r, action = SELL, price = close r, quantity = shares_to_sell,
               trade_value = proceeds, trade_commission = proceeds * commission eng, pnl = None\<rparr>],
           holdings := 0\<rparr>)"

definition execute_signal :: "engine \<Rightarrow> portfolio \<Rightarrow> 'a row_scheme \<Rightarrow> error + portfolio" where
  "execute_signal eng p r =
     (if signal_of r = 1 \<and> holdings p = 0 then
        (case shares_to_buy eng (cash p) (close r) of
           Inl e \<Rightarrow> Inl e
         | Inr n \<Rightarrow> if 0 < n then Inr (buy eng p r n) else Inr p)
      else if signal_of r = - 1 \<and> 0 < holdings p then Inr (sell eng p r)
      else Inr p)"

definition record_equity :: "portfolio \<Rightarrow> 'a row_scheme \<Rightarrow> portfolio" where
  "record_equity p r =
     (let current_portfolio_value = cash p + real_of_int (holdings p) * close r;
          daily_return = fdiv (Num (current_portfolio_value - prev_portfolio_value p))
                              (Num (prev_portfolio_value p))
      in p\<lparr>st_equity := st_equity p @
             [\<lparr>snap_date = date r, portfolio_value = current_portfolio_value,
               snap_cash = cash p, holdings_value = real_of_int (holdings p) * close r,
               returns = daily_return\<rparr>],
           prev_portfolio_value := current_portfolio_value\<rparr>)"

definition step :: "engine \<Rightarrow> portfolio \<Rightarrow> 'a row_scheme \<Rightarrow> error + portfolio" where
  "step eng p r =
     (case execute_signal eng p r of
        Inl e \<Rightarrow> Inl e
      | Inr p' \<Rightarrow> Inr (record_equity p' r))"

fun run_loop :: "engine \<Rightarrow> portfolio \<Rightarrow> 'a row_scheme list \<Rightarrow> error + portfolio" where
  "run_loop eng p [] = Inr p"
| "run_loop eng p (r # rs) =
     (case step eng p r of
        Inl e \<Rightarrow> Inl e
      | Inr p' \<Rightarrow> run_loop eng p' rs)"

definition initial_portfolio :: "engine \<Rightarrow> portfolio" where
  "initial_portfolio eng =
     \<lparr>cash = initial_capital eng, holdings = 0, st_trades = [], st_equity = [],
      prev_portfolio_value = initial_capital eng\<rparr>"

text \<open>
  The second pass: \<open>trades[i]\<close> gets a \<open>pnl\<close> when it is a SELL and \<open>trades[i-1]\<close> is a
  BUY. The pass changes no action and no price, so the predecessor is read unchanged.
\<close>

fun assign_pnl :: "trade \<Rightarrow> trade list \<Rightarrow> trade list" where
  "assign_pnl prev [] = []"
| "assign_pnl prev (t # ts) =
     (if action t = SELL \<and> action prev = BUY
      then t\<lparr>pnl := Some ((price t - price prev) * real_of_int (quantity t))\<rparr>
      else t) # assign_pnl t ts"

fun calculate_pnl :: "trade list \<Rightarrow> trade list" where
  "calculate_pnl [] = []"
| "calculate_pnl (t # ts) = t # assign_pnl t ts"

text \<open>
  \<open>run_backtest\<close>. The strategy is a parameter; whatever it raises propagates. When the
  annotated frame has no rows the loop body never runs, the equity frame is built from
  an empty list and has no \<open>'date'\<close> column, and \<open>set_index('date')\<close> raises KeyError
  (\<open>current_portfolio_value\<close> would be unbound at the \<open>return\<close> as well). Otherwise the
  last \<open>current_portfolio_value\<close> is the value the loop left in \<open>prev_portfolio_value\<close>.
\<close>

definition run_backtest ::
  "engine \<Rightarrow> 'd \<Rightarrow> ('d \<Rightarrow> error + 'a row_scheme list) \<Rightarrow> error + backtest_result" where
  "run_backtest eng data strategy =
     (case strategy data of
        Inl e \<Rightarrow> Inl e
      | Inr signal_data \<Rightarrow>
          (case run_loop eng (initial_portfolio eng) signal_data of
             Inl e \<Rightarrow> Inl e
           | Inr p \<Rightarrow>
               if st_equity p = [] then Inl (KeyError ''date'')
               else Inr \<lparr>equity_curve = st_equity p,
                         trades = calculate_pnl (st_trades p),
                         final_portfolio_value = prev_portfolio_value p,
                         result_initial_capital = initial_capital eng\<rparr>))"


text \<open>
  Stop-loss and take-profit. The arguments are Python floats, whose division by zero
  raises; the branch is chosen by comparing the position type with \<open>'long'\<close>.
\<close>

definition check_stop_loss :: "engine \<Rightarrow> real \<Rightarrow> real \<Rightarrow> string \<Rightarrow> error + bool" where
  "check_stop_loss eng entry_price current_price position_type =
     (if position_type = ''long'' then
        (if entry_price = 0 then Inl ZeroDivisionError
         else Inr (stop_loss_pct eng \<le> (entry_price - current_price) / entry_price))
      else
        (if entry_price = 0 then Inl ZeroDivisionError
         else Inr (stop_loss_pct eng \<le> (current_price - entry_price) / entry_price)))"

definition check_take_profit :: "engine \<Rightarrow> real \<Rightarrow> real \<Rightarrow> string \<Rightarrow> error + bool" where
  "check_take_profit eng entry_price current_price position_type =
     (if position_type = ''long'' then
        (if entry_price = 0 then Inl ZeroDivisionError
         else Inr (take_profit_pct eng \<le> (current_price - entry_price) / entry_price))
      else
        (if entry_price = 0 then Inl ZeroDivisionError
         else Inr (take_profit_pct eng \<le> (entry_price - current_price) / entry_price)))"

section \<open>Series\<close>

text \<open>
  A pandas Series is the list of its cells. \<open>dropna\<close> removes the NaN cells; \<open>mean\<close>
  and \<open>std\<close> are the sample mean and the sample standard deviation with one degree of
  freedom removed, which is NaN for fewer than two observations.
\<close>

definition dropna :: "fnum list \<Rightarrow> fnum list" where
  "dropna xs = filter (\<lambda>x. \<not> isnan x) xs"

definition series_sum :: "fnum list \<Rightarrow> fnum" where
  "series_sum xs = foldl fadd (Num 0) xs"

definition series_mean :: "fnum list \<Rightarrow> fnum" where
  "series_mean xs = fdiv (series_sum xs) (Num (real (length xs)))"

definition series_std :: "fnum list \<Rightarrow> fnum" where
  "series_std xs =
     (if length xs < 2 then NaN
      else fsqrt (fdiv (series_sum (map (\<lambda>x. fmul (fsub x (series_mean xs)) (fsub x (series_mean xs))) xs))
                       (Num (real (length xs - 1)))))"

text \<open>
  \<open>rolling(window=w)\<close>: the cell at index \<open>i\<close> sees the \<open>w\<close> cells ending at \<open>i\<close>, and is
  NaN until \<open>w\<close> cells are there (\<open>min_periods\<close> defaults to the window).
\<close>

definition window :: "nat \<Rightarrow> nat \<Rightarrow> 'a list \<Rightarrow> 'a list" where
  "window w i xs = take w (drop (Suc i - w) xs)"

definition rolling_mean :: "nat \<Rightarrow> fnum list \<Rightarrow> fnum list" where
  "rolling_mean w xs =
     map (\<lambda>i. if 1 \<le> w \<and> w \<le> Suc i then series_mean (window w i xs) else NaN) [0..<length xs]"

definition rolling_std :: "nat \<Rightarrow> fnum list \<Rightarrow> fnum list" where
  "rolling_std w xs =
     map (\<lambda>i. if 1 \<le> w \<and> w \<le> Suc i then series_std (window w i xs) else NaN) [0..<length xs]"

text \<open>\<open>frame.loc[mask, column] = v\<close> on one column.\<close>

definition assign_where :: "bool list \<Rightarrow> 'a \<Rightarrow> 'a list \<Rightarrow> 'a list" where
  "assign_where cond v xs = map (\<lambda>(c, x). if c then v else x) (zip cond xs)"

text \<open>\<open>diff()\<close> and \<open>shift(1)\<close>: the first cell has no predecessor and is NaN.\<close>

definition shift1 :: "fnum list \<Rightarrow> fnum list" where
  "shift1 xs = (if xs = [] then [] else NaN # butlast xs)"

definition diff :: "fnum list \<Rightarrow> fnum list" where
  "diff xs = map (\<lambda>(x, y). fsub x y) (zip xs (shift1 xs))"

text \<open>
  \<open>ewm(span=s).mean()\<close> with the default \<open>adjust=True\<close>: the weighted mean of all cells so
  far with weights \<open>(1 - alpha) ^ k\<close>, \<open>alpha = 2 / (s + 1)\<close>, computed by running sums. Its
  inputs here are finite.
\<close>

fun ewm_from :: "real \<Rightarrow> real \<Rightarrow> real \<Rightarrow> real list \<Rightarrow> real list" where
  "ewm_from alpha num den [] = []"
| "ewm_from alpha num den (x # xs) =
     ((x + (1 - alpha) * num) / (1 + (1 - alpha) * den))
       # ewm_from alpha (x + (1 - alpha) * num) (1 + (1 - alpha) * den) xs"

definition ewm_mean :: "int \<Rightarrow> real list \<Rightarrow> error + real list" where
  "ewm_mean sp xs =
     (if sp < 1 then Inl (ValueError ''span must satisfy: span >= 1'')
      else Inr (ewm_from (2 / (real_of_int sp + 1)) 0 0 xs))"

section \<open>Performance metrics\<close>

definition calculate_sharpe_ratio :: "backtest_result \<Rightarrow> real \<Rightarrow> fnum" where
  "calculate_sharpe_ratio res risk_free_rate =
     (let rets = dropna (map returns (equity_curve res))
      in if length rets = 0 \<or> feq (series_std rets) (Num 0) then Num 0
         else fmul (fdiv (fsub (series_mean rets) (Num (risk_free_rate / 252))) (series_std rets))
                   (Num (sqrt 252)))"

definition calculate_sortino_ratio :: "backtest_result \<Rightarrow> real \<Rightarrow> fnum" where
  "calculate_sortino_ratio res risk_free_rate =
     (let rets = dropna (map returns (equity_curve res))
      in if length rets = 0 then Num 0
         else
           let negative_returns = filter (\<lambda>x. flt x (Num 0)) rets
           in if length negative_returns = 0
              then (if fgt (series_mean rets) (Num 0) then PosInf else Num 0)
              else
                let downside_std = fmul (series_std negative_returns) (Num (sqrt 252));
                    excess_return = fsub (fmul (series_mean rets) (Num 252)) (Num risk_free_rate)
                in if feq downside_std (Num 0) then Num 0
                   else fdiv excess_return downside_std)"

definition pnl_or_zero :: "trade \<Rightarrow> real" where
  "pnl_or_zero t = (case pnl t of None \<Rightarrow> 0 | Some v \<Rightarrow> v)"

definition calculate_profit_factor :: "backtest_result \<Rightarrow> fnum" where
  "calculate_profit_factor res =
     (let profits = map pnl_or_zero (filter (\<lambda>t. 0 < pnl_or_zero t) (trades res));
          losses = map (\<lambda>t. \<bar>pnl_or_zero t\<bar>) (filter (\<lambda>t. pnl_or_zero t < 0) (trades res));
          gross_profit = sum_list profits;
          gross_loss = sum_list losses
      in if gross_loss = 0 then (if 0 < gross_profit then PosInf else Num 0)
         else Num (gross_profit / gross_loss))"

text \<open>
  Monthly returns: the dictionary is filled in a loop over the months in the order they
  first appear (\<open>unique()\<close>); \<open>to_period('M')\<close> keeps a timestamp's year and month.
\<close>

definition month_of :: "timestamp \<Rightarrow> int \<times> nat" where
  "month_of d = (year d, month d)"

definition unique :: "'a list \<Rightarrow> 'a list" where
  "unique xs = rev (remdups (rev xs))"

definition month_data :: "snapshot list \<Rightarrow> int \<times> nat \<Rightarrow> snapshot list" where
  "month_data ec m = filter (\<lambda>s. month_of (snap_date s) = m) ec"

definition month_entry ::
  "snapshot list \<Rightarrow> (int \<times> nat \<rightharpoonup> fnum) \<Rightarrow> int \<times> nat \<Rightarrow> (int \<times> nat \<rightharpoonup> fnum)" where
  "month_entry ec monthly_returns m =
     (if 1 < length (month_data ec m) then
        (let start_value = portfolio_value (hd (month_data ec m));
             end_value = portfolio_value (last (month_data ec m));
             monthly_return = fmul (fdiv (Num (end_value - start_value)) (Num start_value)) (Num 100)
         in monthly_returns(m \<mapsto> monthly_return))
      else monthly_returns)"

definition calculate_monthly_returns :: "backtest_result \<Rightarrow> (int \<times> nat \<rightharpoonup> fnum)" where
  "calculate_monthly_returns res =
     foldl (month_entry (equity_curve res)) Map.empty
       (unique (map (\<lambda>s. month_of (snap_date s)) (equity_curve res)))"


section \<open>Strategies\<close>

text \<open>
  Each \<open>generate_signals\<close> builds its indicator columns, sets the \<open>signal\<close> column to 0,
  overwrites it where the buy condition holds, then where the sell condition holds, and
  (all but the last strategy) drops the rows that hold a NaN. A negative rolling window is
  refused by pandas.
\<close>

definition bad_window :: error where
  "bad_window = ValueError ''window must be an integer 0 or greater''"

subsection \<open>Moving average crossover\<close>

record moving_average_crossover =
  fast_period :: int
  slow_period :: int

record ma_row = row +
  ma_fast :: fnum
  ma_slow :: fnum

definition ma_signal_column :: "fnum list \<Rightarrow> fnum list \<Rightarrow> int list" where
  "ma_signal_column fast slow =
     assign_where (map2 flt fast slow) (- 1)
       (assign_where (map2 fgt fast slow) 1 (replicate (length fast) 0))"

definition ma_frame :: "moving_average_crossover \<Rightarrow> 'a bar_scheme list \<Rightarrow> ma_row list" where
  "ma_frame s data =
     (let closes = map (\<lambda>b. Num (close b)) data;
          fast = rolling_mean (nat (fast_period s)) closes;
          slow = rolling_mean (nat (slow_period s)) closes;
          sig = ma_signal_column fast slow
      in map (\<lambda>i. \<lparr>date = date (data ! i), close = close (data ! i), signal = Some (sig ! i),
                    ma_fast = fast ! i, ma_slow = slow ! i\<rparr>) [0..<length data])"

definition ma_generate_signals ::
  "moving_average_crossover \<Rightarrow> 'a bar_scheme list \<Rightarrow> error + ma_row list" where
  "ma_generate_signals s data =
     (if fast_period s < 0 \<or> slow_period s < 0 then Inl bad_window
      else Inr (filter (\<lambda>r. \<not> isnan (ma_fast r) \<and> \<not> isnan (ma_slow r)) (ma_frame s data)))"

subsection \<open>Bollinger bands\<close>

record bollinger_band_strategy =
  bb_period :: int
  std_dev :: real

record bb_row = row +
  ma :: fnum
  std :: fnum
  upper_band :: fnum
  lower_band :: fnum

definition bb_signal_column :: "fnum list \<Rightarrow> fnum list \<Rightarrow> fnum list \<Rightarrow> int list" where
  "bb_signal_column closes upper lower =
     assign_where (map2 fge closes upper) (- 1)
       (assign_where (map2 fle closes lower) 1 (replicate (length closes) 0))"

definition bb_frame :: "bollinger_band_strategy \<Rightarrow> 'a bar_scheme list \<Rightarrow> bb_row list" where
  "bb_frame s data =
     (let closes = map (\<lambda>b. Num (close b)) data;
          m = rolling_mean (nat (bb_period s)) closes;
          sd = rolling_std (nat (bb_period s)) closes;
          upper = map2 fadd m (map (\<lambda>x. fmul x (Num (std_dev s))) sd);
          lower = map2 fsub m (map (\<lambda>x. fmul x (Num (std_dev s))) sd);
          sig = bb_signal_column closes upper lower
      in map (\<lambda>i. \<lparr>date = date (data ! i), close = close (data ! i), signal = Some (sig ! i),
                    ma = m ! i, std = sd ! i, upper_band = upper ! i, lower_band = lower ! i\<rparr>)
           [0..<length data])"

definition bb_generate_signals ::
  "bollinger_band_strategy \<Rightarrow> 'a bar_scheme list \<Rightarrow> error + bb_row list" where
  "bb_generate_signals s data =
     (if bb_period s < 0 then Inl bad_window
      else Inr (filter (\<lambda>r. \<not> isnan (ma r) \<and> \<not> isnan (std r) \<and> \<not> isnan (upper_band r)
                            \<and> \<not> isnan (lower_band r)) (bb_frame s data)))"

subsection \<open>RSI mean reversion\<close>

record rsi_mean_reversion =
  rsi_period :: int
  oversold :: int
  overbought :: int

record rsi_row = row +
  rsi :: fnum

text \<open>
  \<open>delta.where(delta > 0, 0)\<close> keeps a cell where the condition holds and puts 0 elsewhere,
  also in the first cell, whose \<open>delta\<close> is NaN.
\<close>

definition gain_column :: "fnum list \<Rightarrow> fnum list" where
  "gain_column delta = map (\<lambda>d. if fgt d (Num 0) then d else Num 0) delta"

definition loss_column :: "fnum list \<Rightarrow> fnum list" where
  "loss_column delta = map (\<lambda>d. fneg (if flt d (Num 0) then d else Num 0)) delta"

definition calculate_rsi :: "fnum list \<Rightarrow> int \<Rightarrow> error + fnum list" where
  "calculate_rsi prices period =
     (if period < 0 then Inl bad_window
      else
        let delta = diff prices;
            gain = rolling_mean (nat period) (gain_column delta);
            loss = rolling_mean (nat period) (loss_column delta);
            rs = map2 fdiv gain loss
        in Inr (map (\<lambda>x. fsub (Num 100) (fdiv (Num 100) (fadd (Num 1) x))) rs))"

definition rsi_signal_column :: "rsi_mean_reversion \<Rightarrow> fnum list \<Rightarrow> int list" where
  "rsi_signal_column s r =
     assign_where (map (\<lambda>x. fgt x (Num (real_of_int (overbought s)))) r) (- 1)
       (assign_where (map (\<lambda>x. flt x (Num (real_of_int (oversold s)))) r) 1
          (replicate (length r) 0))"

definition rsi_frame :: "rsi_mean_reversion \<Rightarrow> 'a bar_scheme list \<Rightarrow> fnum list \<Rightarrow> rsi_row list" where
  "rsi_frame s data r =
     map (\<lambda>i. \<lparr>date = date (data ! i), close = close (data ! i),
                signal = Some (rsi_signal_column s r ! i), rsi = r ! i\<rparr>) [0..<length data]"

definition rsi_generate_signals ::
  "rsi_mean_reversion \<Rightarrow> 'a bar_scheme list \<Rightarrow> error + rsi_row list" where
  "rsi_generate_signals s data =
     (case calculate_rsi (map (\<lambda>b. Num (close b)) data) (rsi_period s) of
        Inl e \<Rightarrow> Inl e
      | Inr r \<Rightarrow> Inr (filter (\<lambda>x. \<not> isnan (rsi x)) (rsi_frame s data r)))"

subsection \<open>MACD\<close>

record macd_strategy =
  macd_fast_period :: int
  macd_slow_period :: int
  signal_period :: int

record macd_row = row +
  macd :: fnum
  macd_signal :: fnum
  macd_histogram :: fnum

definition macd_signal_column :: "fnum list \<Rightarrow> fnum list \<Rightarrow> int list" where
  "macd_signal_column macd_line signal_line =
     assign_where
       (map2 (\<and>) (map2 flt macd_line signal_line) (map2 fge (shift1 macd_line) (shift1 signal_line)))
       (- 1)
       (assign_where
          (map2 (\<and>) (map2 fgt macd_line signal_line) (map2 fle (shift1 macd_line) (shift1 signal_line)))
          1 (replicate (length macd_line) 0))"

definition macd_frame :: "'a bar_scheme list \<Rightarrow> real list \<Rightarrow> real list \<Rightarrow> macd_row list" where
  "macd_frame data macd_line signal_line =
     (let sig = macd_signal_column (map Num macd_line) (map Num signal_line)
      in map (\<lambda>i. \<lparr>date = date (data ! i), close = close (data ! i), signal = Some (sig ! i),
                    macd = Num (macd_line ! i), macd_signal = Num (signal_line ! i),
                    macd_histogram = Num (macd_line ! i - signal_line ! i)\<rparr>)
           [0..<length data])"

definition macd_generate_signals ::
  "macd_strategy \<Rightarrow> 'a bar_scheme list \<Rightarrow> error + macd_row list" where
  "macd_generate_signals s data =
     (case ewm_mean (macd_fast_period s) (map close data) of
        Inl e \<Rightarrow> Inl e
      | Inr exp1 \<Rightarrow>
          (case ewm_mean (macd_slow_period s) (map close data) of
             Inl e \<Rightarrow> Inl e
           | Inr exp2 \<Rightarrow>
               (case ewm_mean (signal_period s) (map2 (-) exp1 exp2) of
                  Inl e \<Rightarrow> Inl e
                | Inr signal_line \<Rightarrow> Inr (macd_frame data (map2 (-) exp1 exp2) signal_line))))"

subsection \<open>The base strategy's data preparation\<close>

text \<open>
  A frame as \<open>prepare_data\<close> sees it: its columns in order, each a name and its cells.
  The check of the column names comes first; \<open>fillna(method='ffill')\<close> and
  \<open>fillna(method='bfill')\<close> then fill each gap with the last value before it and what is
  left with the next value after it, as the pandas versions that accept \<open>method\<close> do.
\<close>

type_synonym dataframe = "(string \<times> fnum list) list"

definition columns :: "dataframe \<Rightarrow> string list" where
  "columns df = map fst df"

definition required_columns :: "string list" where
  "required_columns = [''Open'', ''High'', ''Low'', ''Close'', ''Volume'']"

fun ffill_from :: "fnum \<Rightarrow> fnum list \<Rightarrow> fnum list" where
  "ffill_from prev [] = []"
| "ffill_from prev (x # xs) =
     (if isnan x then prev # ffill_from prev xs else x # ffill_from x xs)"

definition ffill :: "fnum list \<Rightarrow> fnum list" where
  "ffill xs = ffill_from NaN xs"

definition bfill :: "fnum list \<Rightarrow> fnum list" where
  "bfill xs = rev (ffill_from NaN (rev xs))"

definition prepare_data :: "dataframe \<Rightarrow> error + dataframe" where
  "prepare_data df =
     (case find (\<lambda>col. col \<notin> set (columns df)) required_columns of
        Some col \<Rightarrow> Inl (ValueError (''Missing required column: '' @ col))
      | None \<Rightarrow> Inr (map (\<lambda>(c, xs). (c, bfill (ffill xs))) df))"

section \<open>The ledger of a run\<close>

text \<open>
  What the trade log says about cash and holdings: a BUY takes its value out of cash and
  adds its quantity to the holdings, a SELL does the opposite, and each trade's value and
  commission follow from its price and quantity.
\<close>

definition cash_flow :: "trade \<Rightarrow> real" where
  "cash_flow t = (case action t of BUY \<Rightarrow> - trade_value t | SELL \<Rightarrow> trade_value t)"

definition share_flow :: "trade \<Rightarrow> int" where
  "share_flow t = (case action t of BUY \<Rightarrow> quantity t | SELL \<Rightarrow> - quantity t)"

definition well_priced :: "engine \<Rightarrow> trade \<Rightarrow> bool" where
  "well_priced eng t =
     (trade_value t = real_of_int (quantity t) * price t *
         (case action t of BUY \<Rightarrow> 1 + commission eng | SELL \<Rightarrow> 1 - commission eng)
      \<and> trade_commission t = trade_value t * commission eng)"

definition ledger_ok :: "engine \<Rightarrow> portfolio \<Rightarrow> bool" where
  "ledger_ok eng p =
     (cash p = initial_capital eng + sum_list (map cash_flow (st_trades p))
      \<and> holdings p = sum_list (map share_flow (st_trades p))
      \<and> list_all (well_priced eng) (st_trades p))"

section \<open>Notions the statements use\<close>

text \<open>The number \<open>month_entry\<close> stores for a month, from its first and last values.\<close>

definition monthly_value :: "real \<Rightarrow> real \<Rightarrow> fnum" where
  "monthly_value start_value end_value =
     fmul (fdiv (Num (end_value - start_value)) (Num start_value)) (Num 100)"

text \<open>
  The indicators in terms of the closes alone. \<open>simple_average w i xs\<close> is the mean of the
  \<open>w\<close> cells of \<open>xs\<close> ending at index \<open>i\<close>, \<open>sample_deviation w i xs\<close> their sample standard
  deviation (divisor \<open>w - 1\<close>), and \<open>exponential_average sp i xs\<close> the mean of the cells up
  to \<open>i\<close> with the weight \<open>(1 - alpha) ^ k\<close> on the cell \<open>k\<close> places back, \<open>alpha = 2 / (sp + 1)\<close>.
\<close>

definition simple_average :: "nat \<Rightarrow> nat \<Rightarrow> real list \<Rightarrow> real" where
  "simple_average w i xs = (\<Sum>j = Suc i - w..<Suc i. xs ! j) / real w"

definition sample_deviation :: "nat \<Rightarrow> nat \<Rightarrow> real list \<Rightarrow> real" where
  "sample_deviation w i xs =
     sqrt ((\<Sum>j = Suc i - w..<Suc i. (xs ! j - simple_average w i xs)\<^sup>2) / real (w - 1))"

definition exponential_average :: "int \<Rightarrow> nat \<Rightarrow> real list \<Rightarrow> real" where
  "exponential_average sp i xs =
     (\<Sum>j\<le>i. (1 - 2 / (real_of_int sp + 1)) ^ (i - j) * xs ! j)
       / (\<Sum>j\<le>i. (1 - 2 / (real_of_int sp + 1)) ^ (i - j))"

text \<open>
  The rows the crossover, the band strategy and MACD are to return for bar \<open>i\<close>: the
  indicators of the closes, and the signal that the strategy's rule gives them.
\<close>

definition ma_row_at :: "moving_average_crossover \<Rightarrow> 'a bar_scheme list \<Rightarrow> nat \<Rightarrow> ma_row" where
  "ma_row_at s data i =
     \<lparr>date = date (data ! i), close = close (data ! i),
      signal = Some (if simple_average (nat (slow_period s)) i (map close data)
                          < simple_average (nat (fast_period s)) i (map close data) then 1
                     else if simple_average (nat (fast_period s)) i (map close data)
                          < simple_average (nat (slow_period s)) i (map close data) then - 1
                     else 0),
      ma_fast = Num (simple_average (nat (fast_period s)) i (map close data)),
      ma_slow = Num (simple_average (nat (slow_period s)) i (map close data))\<rparr>"

definition upper_band_at :: "bollinger_band_strategy \<Rightarrow> 'a bar_scheme list \<Rightarrow> nat \<Rightarrow> real" where
  "upper_band_at s data i =
     simple_average (nat (bb_period s)) i (map close data)
       + sample_deviation (nat (bb_period s)) i (map close data) * std_dev s"

definition lower_band_at :: "bollinger_band_strategy \<Rightarrow> 'a bar_scheme list \<Rightarrow> nat \<Rightarrow> real" where
  "lower_band_at s data i =
     simple_average (nat (bb_period s)) i (map close data)
       - sample_deviation (nat (bb_period s)) i (map close data) * std_dev s"

definition bb_row_at :: "bollinger_band_strategy \<Rightarrow> 'a bar_scheme list \<Rightarrow> nat \<Rightarrow> bb_row" where
  "bb_row_at s data i =
     \<lparr>date = date (data ! i), close = close (data ! i),
      signal = Some (if upper_band_at s data i \<le> close (data ! i) then - 1
                     else if close (data ! i) \<le> lower_band_at s data i then 1
                     else 0),
      ma = Num (simple_average (nat (bb_period s)) i (map close data)),
      std = Num (sample_deviation (nat (bb_period s)) i (map close data)),
      upper_band = Num (upper_band_at s data i),
      lower_band = Num (lower_band_at s data i)\<rparr>"

definition macd_line_at :: "macd_strategy \<Rightarrow> 'a bar_scheme list \<Rightarrow> nat \<Rightarrow> real" where
  "macd_line_at s data i =
     exponential_average (macd_fast_period s) i (map close data)
       - exponential_average (macd_slow_period s) i (map close data)"

definition signal_line_at :: "macd_strategy \<Rightarrow> 'a bar_scheme list \<Rightarrow> nat \<Rightarrow> real" where
  "signal_line_at s data i =
     exponential_average (signal_period s) i (map (macd_line_at s data) [0..<length data])"

definition macd_row_at :: "macd_strategy \<Rightarrow> 'a bar_scheme list \<Rightarrow> nat \<Rightarrow> macd_row" where
  "macd_row_at s data i =
     \<lparr>date = date (data ! i), close = close (data ! i),
      signal = Some (if 0 < i \<and> signal_line_at s data i < macd_line_at s data i
                          \<and> macd_line_at s data (i - 1) \<le> signal_line_at s data (i - 1) then 1
                     else if 0 < i \<and> macd_line_at s data i < signal_line_at s data i
                          \<and> signal_line_at s data (i - 1) \<le> macd_line_at s data (i - 1) then - 1
                     else 0),
      macd = Num (macd_line_at s data i),
      macd_signal = Num (signal_line_at s data i),
      macd_histogram = Num (macd_line_at s data i - signal_line_at s data i)\<rparr>"

text \<open>
  The columns of \<open>calculate_rsi\<close> over finite prices, as reals: the upward and the
  downward part of each bar's change (0 on the first bar, which has no change), and the
  index built from an average gain and an average loss, \<open>100 - 100 / (1 + RS)\<close> with
  \<open>RS\<close> their ratio.
\<close>

definition gains :: "real list \<Rightarrow> real list" where
  "gains ps = map (\<lambda>i. if i = 0 then 0 else max (ps ! i - ps ! (i - 1)) 0) [0..<length ps]"

definition losses :: "real list \<Rightarrow> real list" where
  "losses ps = map (\<lambda>i. if i = 0 then 0 else max (ps ! (i - 1) - ps ! i) 0) [0..<length ps]"

definition rsi_value :: "real \<Rightarrow> real \<Rightarrow> fnum" where
  "rsi_value g l =
     (if l = 0 then (if g = 0 then NaN else Num 100) else Num (100 - 100 / (1 + g / l)))"

text \<open>
  The row the RSI strategy is to return for bar \<open>i\<close>: the index over the simple means of
  the gains and of the losses of the last \<open>rsi_period\<close> bars, and the signal the two
  thresholds give it, the sell rule first.
\<close>

definition average_gain :: "rsi_mean_reversion \<Rightarrow> 'a bar_scheme list \<Rightarrow> nat \<Rightarrow> real" where
  "average_gain s data i = simple_average (nat (rsi_period s)) i (gains (map close data))"

definition average_loss :: "rsi_mean_reversion \<Rightarrow> 'a bar_scheme list \<Rightarrow> nat \<Rightarrow> real" where
  "average_loss s data i = simple_average (nat (rsi_period s)) i (losses (map close data))"

definition rsi_number :: "real \<Rightarrow> real \<Rightarrow> real" where
  "rsi_number g l = (if l = 0 then 100 else 100 - 100 / (1 + g / l))"

definition rsi_row_at :: "rsi_mean_reversion \<Rightarrow> 'a bar_scheme list \<Rightarrow> nat \<Rightarrow> rsi_row" where
  "rsi_row_at s data i =
     \<lparr>date = date (data ! i), close = close (data ! i),
      signal = Some (if real_of_int (overbought s) < rsi_number (average_gain s data i) (average_loss s data i)
                     then - 1
                     else if rsi_number (average_gain s data i) (average_loss s data i)
                             < real_of_int (oversold s)
                     then 1 else 0),
      rsi = Num (rsi_number (average_gain s data i) (average_loss s data i))\<rparr>"

text \<open>
  Wilder's smoothing, following the words of the specification and not the source: over
  the changes from the second bar on, the first average is the mean of the first \<open>n\<close>
  changes, and each later one is \<open>(previous * (n - 1) + current) / n\<close>. \<open>wilder_rsi n ps i\<close>
  is the index at bar \<open>i\<close>, for \<open>1 \<le> n \<le> i < length ps\<close>, built from the two smoothed averages.
\<close>

fun wilder_smooth :: "nat \<Rightarrow> real \<Rightarrow> real list \<Rightarrow> real list" where
  "wilder_smooth n prev [] = []"
| "wilder_smooth n prev (x # xs) =
     ((prev * real (n - 1) + x) / real n)
       # wilder_smooth n ((prev * real (n - 1) + x) / real n) xs"

definition wilder_average :: "nat \<Rightarrow> real list \<Rightarrow> real list" where
  "wilder_average n xs =
     (sum_list (take n xs) / real n) # wilder_smooth n (sum_list (take n xs) / real n) (drop n xs)"

definition wilder_rsi :: "nat \<Rightarrow> real list \<Rightarrow> nat \<Rightarrow> fnum" where
  "wilder_rsi n ps i =
     rsi_value (wilder_average n (tl (gains ps)) ! (i - n))
               (wilder_average n (tl (losses ps)) ! (i - n))"

section \<open>Concrete inputs\<close>

text \<open>Small inputs on which the theorems below are instantiated and evaluated.\<close>

definition d1 :: timestamp where
  "d1 = Timestamp 2024 1 2"

definition d2 :: timestamp where
  "d2 = Timestamp 2024 1 3"

definition round_trip_rows :: "row list" where
  "round_trip_rows =
     [\<lparr>date = d1, close = 100, signal = Some 1\<rparr>,
      \<lparr>date = d2, close = 100, signal = Some (- 1)\<rparr>]"

definition hold_rows :: "row list" where
  "hold_rows =
     [\<lparr>date = d1, close = 100, signal = Some 0\<rparr>,
      \<lparr>date = d2, close = 105, signal = Some 0\<rparr>]"

text \<open>A strategy whose frame has no \<open>'signal'\<close> column.\<close>

definition no_signal_strategy :: "bar list \<Rightarrow> error + row list" where
  "no_signal_strategy data =
     Inr (map (\<lambda>b. \<lparr>date = date b, close = close b, signal = None\<rparr>) data)"

definition two_bars :: "bar list" where
  "two_bars = [\<lparr>date = d1, close = 100\<rparr>, \<lparr>date = d2, close = 105\<rparr>]"

text \<open>An engine charging a commission of 200 per cent.\<close>

definition costly_engine :: engine where
  "costly_engine = default_engine\<lparr>initial_capital := 100, commission := 2\<rparr>"

definition costly_rows :: "row list" where
  "costly_rows =
     [\<lparr>date = d1, close = 1, signal = Some 1\<rparr>,
      \<lparr>date = d2, close = 1, signal = Some (- 1)\<rparr>]"

definition costly_result :: backtest_result where
  "costly_result =
     \<lparr>equity_curve =
        [\<lparr>snap_date = d1, portfolio_value = 38, snap_cash = 7, holdings_value = 31,
          returns = Num (- (31 / 50))\<rparr>,
         \<lparr>snap_date = d2, portfolio_value = - 24, snap_cash = - 24, holdings_value = 0,
          returns = Num (- (31 / 19))\<rparr>],
      trades =
        [\<lparr>trade_date = d1, action = BUY, price = 1, quantity = 31, trade_value = 93,
          trade_commission = 186, pnl = None\<rparr>,
         \<lparr>trade_date = d2, action = SELL, price = 1, quantity = 31, trade_value = - 31,
          trade_commission = - 62, pnl = Some 0\<rparr>],
      final_portfolio_value = - 24, result_initial_capital = 100\<rparr>"

definition round_trip_result :: backtest_result where
  "round_trip_result =
     \<lparr>equity_curve =
        [\<lparr>snap_date = d1, portfolio_value = 49953 / 5, snap_cash = 2953 / 5,
          holdings_value = 9400, returns = Num (- (47 / 50000))\<rparr>,
         \<lparr>snap_date = d2, portfolio_value = 49906 / 5, snap_cash = 49906 / 5,
          holdings_value = 0, returns = Num (- (47 / 49953))\<rparr>],
      trades =
        [\<lparr>trade_date = d1, action = BUY, price = 100, quantity = 94, trade_value = 47047 / 5,
          trade_commission = 47047 / 5000, pnl = None\<rparr>,
         \<lparr>trade_date = d2, action = SELL, price = 100, quantity = 94, trade_value = 46953 / 5,
          trade_commission = 46953 / 5000, pnl = Some 0\<rparr>],
      final_portfolio_value = 49906 / 5, result_initial_capital = 10000\<rparr>"

text \<open>
  The result of a backtest over a single bar, and a result with the equity curve
  \<open>[10000, 11000, 9900, 9900]\<close>.
\<close>

definition d3 :: timestamp where
  "d3 = Timestamp 2024 1 4"

definition d4 :: timestamp where
  "d4 = Timestamp 2024 1 5"

definition one_bar :: "row list" where
  "one_bar = [\<lparr>date = d1, close = 100, signal = Some 0\<rparr>]"

definition one_bar_result :: backtest_result where
  "one_bar_result =
     \<lparr>equity_curve =
        [\<lparr>snap_date = d1, portfolio_value = 10000, snap_cash = 10000, holdings_value = 0,
          returns = Num 0\<rparr>],
      trades = [], final_portfolio_value = 10000, result_initial_capital = 10000\<rparr>"

definition spec_example_result :: backtest_result where
  "spec_example_result =
     \<lparr>equity_curve =
        [\<lparr>snap_date = d1, portfolio_value = 10000, snap_cash = 10000, holdings_value = 0,
          returns = Num 0\<rparr>,
         \<lparr>snap_date = d2, portfolio_value = 11000, snap_cash = 1000, holdings_value = 10000,
          returns = Num (1 / 10)\<rparr>,
         \<lparr>snap_date = d3, portfolio_value = 9900, snap_cash = 1000, holdings_value = 8900,
          returns = Num (- (1 / 10))\<rparr>,
         \<lparr>snap_date = d4, portfolio_value = 9900, snap_cash = 1000, holdings_value = 8900,
          returns = Num 0\<rparr>],
      trades = [], final_portfolio_value = 9900, result_initial_capital = 10000\<rparr>"

text \<open>
  A frame whose price and volume columns have lowercase names beside two columns named
  with capitals, one with only \<open>'Open'\<close> capitalised, one with the five capitalised names
  and gaps, and the latter with its gaps filled forwards, then backwards.
\<close>

definition lowercase_frame :: dataframe where
  "lowercase_frame =
     [(''open'', [Num 1, NaN]), (''high'', [Num 2, Num 3]), (''low'', [Num 1, Num 1]),
      (''close'', [Num 2, Num 2]), (''volume'', [Num 10, Num 20]),
      (''Dividends'', [Num 0, Num 0]), (''Stock Splits'', [Num 0, Num 0])]"

definition open_only_frame :: dataframe where
  "open_only_frame =
     [(''Open'', [Num 1, NaN]), (''high'', [Num 2, Num 3]), (''low'', [Num 1, Num 1]),
      (''close'', [Num 2, Num 2]), (''volume'', [Num 10, Num 20])]"

definition capitalised_frame :: dataframe where
  "capitalised_frame =
     [(''Open'', [NaN, Num 1, NaN]), (''High'', [Num 2, Num 3, Num 4]), (''Low'', [Num 1, NaN, NaN]),
      (''Close'', [Num 2, Num 2, Num 3]), (''Volume'', [Num 10, Num 20, Num 30])]"

definition capitalised_frame_filled :: dataframe where
  "capitalised_frame_filled =
     [(''Open'', [Num 1, Num 1, Num 1]), (''High'', [Num 2, Num 3, Num 4]),
      (''Low'', [Num 1, Num 1, Num 1]),
      (''Close'', [Num 2, Num 2, Num 3]), (''Volume'', [Num 10, Num 20, Num 30])]"

text \<open>An equity curve over three months, the second with a single snapshot.\<close>

definition monthly_example :: backtest_result where
  "monthly_example =
     \<lparr>equity_curve =
        [\<lparr>snap_date = Timestamp 2024 1 2, portfolio_value = 10000, snap_cash = 10000,
          holdings_value = 0, returns = Num 0\<rparr>,
         \<lparr>snap_date = Timestamp 2024 1 31, portfolio_value = 11000, snap_cash = 1000,
          holdings_value = 10000, returns = Num (1 / 10)\<rparr>,
         \<lparr>snap_date = Timestamp 2024 2 15, portfolio_value = 10500, snap_cash = 1000,
          holdings_value = 9500, returns = Num (- (1 / 22))\<rparr>,
         \<lparr>snap_date = Timestamp 2024 3 1, portfolio_value = 10000, snap_cash = 1000,
          holdings_value = 9000, returns = Num (- (1 / 21))\<rparr>,
         \<lparr>snap_date = Timestamp 2024 3 15, portfolio_value = 9000, snap_cash = 1000,
          holdings_value = 8000, returns = Num (- (1 / 10))\<rparr>,
         \<lparr>snap_date = Timestamp 2024 3 28, portfolio_value = 9500, snap_cash = 1000,
          holdings_value = 8500, returns = Num (1 / 18)\<rparr>],
      trades = [], final_portfolio_value = 9500, result_initial_capital = 10000\<rparr>"

text \<open>Bars with the given closes, dated on consecutive days of January 2024.\<close>

definition bars_of :: "real list \<Rightarrow> bar list" where
  "bars_of closes = map (\<lambda>(i, c). \<lparr>date = Timestamp 2024 1 (Suc i), close = c\<rparr>) (enumerate 0 closes)"

text \<open>
  The frames the strategies return on small inputs: the crossover with periods 2 and 3 on
  the closes \<open>[10, 10, 10, 12, 14, 16, 8, 8, 8]\<close>, the Bollinger bands with period 3 and one
  deviation on \<open>[1, 2, 3, 1, 2]\<close>, MACD with spans 1, 3, 3 on \<open>[10, 10, 12, 9]\<close>, and the
  Bollinger bands with period 2 and two deviations on the flat closes \<open>[10, 10]\<close>.
\<close>

definition crossover_example :: "ma_row list" where
  "crossover_example =
    [\<lparr>date = Timestamp 2024 1 3, close = 10, signal = Some 0, ma_fast = Num 10, ma_slow = Num 10\<rparr>,
     \<lparr>date = Timestamp 2024 1 4, close = 12, signal = Some 1, ma_fast = Num 11, ma_slow = Num (32 / 3)\<rparr>,
     \<lparr>date = Timestamp 2024 1 5, close = 14, signal = Some 1, ma_fast = Num 13, ma_slow = Num 12\<rparr>,
     \<lparr>date = Timestamp 2024 1 6, close = 16, signal = Some 1, ma_fast = Num 15, ma_slow = Num 14\<rparr>,
     \<lparr>date = Timestamp 2024 1 7, close = 8, signal = Some (- 1), ma_fast = Num 12, ma_slow = Num (38 / 3)\<rparr>,
     \<lparr>date = Timestamp 2024 1 8, close = 8, signal = Some (- 1), ma_fast = Num 8, ma_slow = Num (32 / 3)\<rparr>,
     \<lparr>date = Timestamp 2024 1 9, close = 8, signal = Some 0, ma_fast = Num 8, ma_slow = Num 8\<rparr>]"

definition bollinger_example :: "bb_row list" where
  "bollinger_example =
    [\<lparr>date = Timestamp 2024 1 3, close = 3, signal = Some (- 1), ma = Num 2, std = Num 1,
      upper_band = Num 3, lower_band = Num 1\<rparr>,
     \<lparr>date = Timestamp 2024 1 4, close = 1, signal = Some 1, ma = Num 2, std = Num 1,
      upper_band = Num 3, lower_band = Num 1\<rparr>,
     \<lparr>date = Timestamp 2024 1 5, close = 2, signal = Some 0, ma = Num 2, std = Num 1,
      upper_band = Num 3, lower_band = Num 1\<rparr>]"

definition macd_example :: "macd_row list" where
  "macd_example =
    [\<lparr>date = Timestamp 2024 1 1, close = 10, signal = Some 0, macd = Num 0,
      macd_signal = Num 0, macd_histogram = Num 0\<rparr>,
     \<lparr>date = Timestamp 2024 1 2, close = 10, signal = Some 0, macd = Num 0,
      macd_signal = Num 0, macd_histogram = Num 0\<rparr>,
     \<lparr>date = Timestamp 2024 1 3, close = 12, signal = Some 1, macd = Num (6 / 7),
      macd_signal = Num (24 / 49), macd_histogram = Num (18 / 49)\<rparr>,
     \<lparr>date = Timestamp 2024 1 4, close = 9, signal = Some (- 1), macd = Num (- 1),
      macd_signal = Num (- (32 / 105)), macd_histogram = Num (- (73 / 105))\<rparr>]"

definition flat_window_example :: "bb_row list" where
  "flat_window_example =
    [\<lparr>date = Timestamp 2024 1 2, close = 10, signal = Some (- 1), ma = Num 10, std = Num 0,
      upper_band = Num 10, lower_band = Num 10\<rparr>]"

text \<open>
  The frame of the RSI strategy with period 2 and thresholds 30 and 70 on the closes
  \<open>[1, 2, 4, 3, 1]\<close>.
\<close>

definition rsi_example :: "rsi_row list" where
  "rsi_example =
    [\<lparr>date = Timestamp 2024 1 2, close = 2, signal = Some (- 1), rsi = Num 100\<rparr>,
     \<lparr>date = Timestamp 2024 1 3, close = 4, signal = Some (- 1), rsi = Num 100\<rparr>,
     \<lparr>date = Timestamp 2024 1 4, close = 3, signal = Some 0, rsi = Num (200 / 3)\<rparr>,
     \<lparr>date = Timestamp 2024 1 5, close = 1, signal = Some 1, rsi = Num 0\<rparr>]"

section \<open>Properties of the simulation engine\<close>

subsection \<open>Evaluating the concrete runs\<close>

lemma costly_run: "run_backtest costly_engine costly_rows Inr = Inr costly_result"
  by (simp add: run_backtest_def costly_rows_def initial_portfolio_def step_def
      execute_signal_def signal_of_def shares_to_buy_def py_int_def buy_def sell_def
      record_equity_def Let_def costly_engine_def default_engine_def costly_result_def)

lemma round_trip_run: "run_backtest default_engine round_trip_rows Inr = Inr round_trip_result"
  by (simp add: run_backtest_def round_trip_rows_def initial_portfolio_def step_def
      execute_signal_def signal_of_def shares_to_buy_def py_int_def buy_def sell_def
      record_equity_def Let_def default_engine_def round_trip_result_def)

subsection \<open>Bars that hold\<close>

lemma execute_signal_hold:
  "signal_of r = 0 \<Longrightarrow> execute_signal eng p r = Inr p"
  by (simp add: execute_signal_def)

lemma step_hold:
  "signal_of r = 0 \<Longrightarrow> step eng p r = Inr (record_equity p r)"
  by (simp add: step_def execute_signal_hold)

lemma run_loop_hold:
  assumes "\<forall>r\<in>set rs. signal_of r = 0"
    and "holdings p = 0" and "prev_portfolio_value p = cash p"
  shows "\<exists>p'. run_loop eng p rs = Inr p' \<and> cash p' = cash p \<and> holdings p' = 0
           \<and> st_trades p' = st_trades p \<and> prev_portfolio_value p' = cash p
           \<and> length (st_equity p') = length (st_equity p) + length rs
           \<and> (\<forall>s\<in>set (st_equity p'). s \<in> set (st_equity p) \<or> portfolio_value s = cash p)"
  using assms
proof (induction rs arbitrary: p)
  case Nil
  then show ?case by simp
next
  case (Cons r rs)
  let ?q = "record_equity p r"
  have st: "step eng p r = Inr ?q" using Cons.prems(1) by (simp add: step_hold)
  have q: "holdings ?q = 0" "prev_portfolio_value ?q = cash ?q" "cash ?q = cash p"
    "st_trades ?q = st_trades p"
    using Cons.prems(2,3) by (simp_all add: record_equity_def Let_def)
  have eq: "st_equity ?q = st_equity p @ [\<lparr>snap_date = date r, portfolio_value = cash p,
               snap_cash = cash p, holdings_value = 0,
               returns = fdiv (Num 0) (Num (cash p))\<rparr>]"
    using Cons.prems(2,3) by (simp add: record_equity_def Let_def)
  from Cons.IH[of ?q] Cons.prems(1) q
  obtain p' where p': "run_loop eng ?q rs = Inr p'" "cash p' = cash p" "holdings p' = 0"
    "st_trades p' = st_trades p" "prev_portfolio_value p' = cash p"
    "length (st_equity p') = length (st_equity ?q) + length rs"
    "\<forall>s\<in>set (st_equity p'). s \<in> set (st_equity ?q) \<or> portfolio_value s = cash p"
    by auto
  have "\<forall>s\<in>set (st_equity p'). s \<in> set (st_equity p) \<or> portfolio_value s = cash p"
    using p'(7) eq by auto
  then show ?case using st p' eq by simp
qed

lemma execute_signal_equity:
  "execute_signal eng p r = Inr q \<Longrightarrow> st_equity q = st_equity p"
  by (auto simp add: execute_signal_def buy_def sell_def Let_def split: if_splits sum.splits)

lemma step_equity:
  "step eng p r = Inr q \<Longrightarrow> length (st_equity q) = Suc (length (st_equity p))"
  by (auto simp add: step_def record_equity_def Let_def split: sum.splits
      dest: execute_signal_equity)

lemma run_loop_length:
  "run_loop eng p rs = Inr p' \<Longrightarrow> length (st_equity p') = length (st_equity p) + length rs"
proof (induction rs arbitrary: p)
  case Nil
  then show ?case by simp
next
  case (Cons r rs)
  then show ?case
    by (auto split: sum.splits dest: step_equity)
qed

lemma hold_backtest:
  assumes "strategy data = Inr rows" "rows \<noteq> []" "\<forall>r\<in>set rows. signal_of r = 0"
  shows "\<exists>res. run_backtest eng data strategy = Inr res \<and> trades res = []
           \<and> (\<forall>s\<in>set (equity_curve res). portfolio_value s = initial_capital eng)
           \<and> final_portfolio_value res = initial_capital eng
           \<and> length (equity_curve res) = length rows"
proof -
  let ?p = "initial_portfolio eng"
  have "holdings ?p = 0" "prev_portfolio_value ?p = cash ?p"
    by (simp_all add: initial_portfolio_def)
  from run_loop_hold[OF assms(3) this, of eng]
  obtain p' where p': "run_loop eng ?p rows = Inr p'" "cash p' = cash ?p"
    "st_trades p' = st_trades ?p" "prev_portfolio_value p' = cash ?p"
    "length (st_equity p') = length (st_equity ?p) + length rows"
    "\<forall>s\<in>set (st_equity p'). s \<in> set (st_equity ?p) \<or> portfolio_value s = cash ?p"
    by blast
  have ne: "st_equity p' \<noteq> []" using p'(5) assms(2) by auto
  show ?thesis
    using assms(1) p' ne by (simp add: run_backtest_def initial_portfolio_def)
qed

text \<open>
  Claim C1, amended: for every non-empty bar series in which every bar's signal is 0,
  \<open>run_backtest\<close> with any initial capital and commission rate returns an empty trade
  list, one equity snapshot per bar, each with the initial capital as its portfolio value,
  and the initial capital as the final portfolio value.
\<close>

theorem all_hold_keeps_capital:
  assumes "strategy data = Inr rows" "rows \<noteq> []" "\<forall>r\<in>set rows. signal r = Some 0"
  shows "\<exists>res. run_backtest eng data strategy = Inr res \<and> trades res = []
           \<and> (\<forall>s\<in>set (equity_curve res). portfolio_value s = initial_capital eng)
           \<and> final_portfolio_value res = initial_capital eng
           \<and> length (equity_curve res) = length rows"
  using assms by (intro hold_backtest) (simp_all add: signal_of_def)

theorem all_hold_keeps_capital_witness:
  "hold_rows \<noteq> [] \<and> list_all (\<lambda>r. signal r = Some 0) hold_rows
   \<and> (\<exists>res. run_backtest default_engine hold_rows Inr = Inr res \<and> trades res = []
        \<and> list_all (\<lambda>s. portfolio_value s = 10000) (equity_curve res)
        \<and> final_portfolio_value res = 10000 \<and> length (equity_curve res) = 2)"
proof -
  have a: "hold_rows \<noteq> []" "\<forall>r\<in>set hold_rows. signal r = Some 0"
    by (simp_all add: hold_rows_def)
  have l: "length hold_rows = 2" "initial_capital default_engine = 10000"
    by (simp_all add: hold_rows_def default_engine_def)
  show ?thesis
    using a all_hold_keeps_capital[of Inr hold_rows hold_rows default_engine]
    by (simp add: list_all_iff l)
qed

text \<open>
  The claim as stated, for every series, fails on the series with no bars, where all
  signals are 0 vacuously: \<open>run_backtest\<close> raises.
\<close>

theorem all_hold_empty_series_raises:
  "run_backtest default_engine ([] :: row list) Inr = Inl (KeyError ''date'')"
  by (simp add: run_backtest_def initial_portfolio_def)

text \<open>
  Claim C9, amended: for every non-empty bar series whose annotated frame has no
  \<open>'signal'\<close> column, \<open>run_backtest\<close> does not raise, treats every bar as HOLD, executes
  no trade and returns the initial capital as the final portfolio value.
\<close>

theorem missing_signal_column_holds:
  assumes "strategy data = Inr rows" "rows \<noteq> []" "\<forall>r\<in>set rows. signal r = None"
  shows "\<exists>res. run_backtest eng data strategy = Inr res \<and> trades res = []
           \<and> (\<forall>s\<in>set (equity_curve res). portfolio_value s = initial_capital eng)
           \<and> final_portfolio_value res = initial_capital eng
           \<and> length (equity_curve res) = length rows"
  using assms by (intro hold_backtest) (simp_all add: signal_of_def)

theorem missing_signal_column_holds_witness:
  "(\<exists>res. run_backtest default_engine two_bars no_signal_strategy = Inr res \<and> trades res = []
        \<and> list_all (\<lambda>s. portfolio_value s = 10000) (equity_curve res)
        \<and> final_portfolio_value res = 10000 \<and> length (equity_curve res) = 2)"
proof -
  let ?rows = "map (\<lambda>b. \<lparr>date = date b, close = close b, signal = None\<rparr>) two_bars"
  have a: "no_signal_strategy two_bars = Inr ?rows" "?rows \<noteq> []"
    "\<forall>r\<in>set ?rows. signal r = None"
    by (simp_all add: no_signal_strategy_def two_bars_def)
  have l: "length two_bars = 2" "initial_capital default_engine = 10000"
    by (simp_all add: two_bars_def default_engine_def)
  show ?thesis
    using a missing_signal_column_holds[of no_signal_strategy two_bars ?rows default_engine]
    by (simp add: list_all_iff l)
qed

text \<open>A frame with no rows and no \<open>'signal'\<close> column makes \<open>run_backtest\<close> raise.\<close>

theorem missing_signal_column_empty_frame_raises:
  "run_backtest default_engine [] no_signal_strategy = Inl (KeyError ''date'')"
  by (simp add: run_backtest_def initial_portfolio_def no_signal_strategy_def)

subsection \<open>Cash stays non-negative\<close>

lemma py_int_le: "0 \<le> x \<Longrightarrow> real_of_int (py_int x) \<le> x"
  by (simp add: py_int_def)

lemma shares_to_buy_affordable:
  assumes "0 < current_price" "0 \<le> commission eng" "0 \<le> c"
  shows "\<exists>n. shares_to_buy eng c current_price = Inr n
           \<and> real_of_int n * current_price * (1 + commission eng) \<le> c * (95 / 100)"
proof -
  let ?d = "current_price * (1 + commission eng)"
  have d: "0 < ?d" using assms by (simp add: add_nonneg_pos)
  have q: "0 \<le> c * (95 / 100) / ?d" using assms d by simp
  have "real_of_int (py_int (c * (95 / 100) / ?d)) \<le> c * (95 / 100) / ?d"
    using q by (rule py_int_le)
  then have "real_of_int (py_int (c * (95 / 100) / ?d)) * ?d \<le> c * (95 / 100)"
    using d by (simp add: pos_le_divide_eq)
  moreover have "shares_to_buy eng c current_price = Inr (py_int (c * (95 / 100) / ?d))"
    using assms by (auto simp add: shares_to_buy_def Let_def)
  ultimately show ?thesis by (simp add: mult.assoc)
qed

lemma execute_signal_cash:
  assumes "0 < close r" "0 \<le> commission eng" "commission eng \<le> 1"
    "0 \<le> cash p" "0 \<le> holdings p"
  shows "\<exists>p'. execute_signal eng p r = Inr p' \<and> 0 \<le> cash p' \<and> 0 \<le> holdings p'
      \<and> st_equity p' = st_equity p"
proof -
  obtain n where n: "shares_to_buy eng (cash p) (close r) = Inr n"
    "real_of_int n * close r * (1 + commission eng) \<le> cash p * (95 / 100)"
    using shares_to_buy_affordable[OF assms(1,2,4)] by blast
  have buy: "0 \<le> cash (buy eng p r n)" "st_equity (buy eng p r n) = st_equity p"
    using n(2) assms(4) by (simp_all add: buy_def Let_def)
  have buyh: "0 < n \<Longrightarrow> 0 \<le> holdings (buy eng p r n)"
    using assms(5) by (simp add: buy_def Let_def)
  have "0 \<le> real_of_int (holdings p) * close r * (1 - commission eng)"
    using assms by simp
  then have sell: "0 \<le> cash (sell eng p r)" "holdings (sell eng p r) = 0"
    "st_equity (sell eng p r) = st_equity p"
    using assms(4) by (simp_all add: sell_def Let_def)
  show ?thesis
    using n(1) buy buyh sell assms(4,5) by (simp add: execute_signal_def)
qed

lemma step_cash:
  assumes "0 < close r" "0 \<le> commission eng" "commission eng \<le> 1"
    "0 \<le> cash p" "0 \<le> holdings p"
  shows "\<exists>p'. step eng p r = Inr p' \<and> 0 \<le> cash p' \<and> 0 \<le> holdings p'
      \<and> (\<exists>s. st_equity p' = st_equity p @ [s] \<and> snap_cash s = cash p')"
proof -
  obtain q where q: "execute_signal eng p r = Inr q" "0 \<le> cash q" "0 \<le> holdings q"
    "st_equity q = st_equity p"
    using execute_signal_cash[OF assms] by blast
  show ?thesis using q by (simp add: step_def record_equity_def Let_def)
qed

lemma run_loop_cash:
  assumes "\<forall>r\<in>set rs. 0 < close r" "0 \<le> commission eng" "commission eng \<le> 1"
    "0 \<le> cash p" "0 \<le> holdings p" "\<forall>s\<in>set (st_equity p). 0 \<le> snap_cash s"
  shows "\<exists>p'. run_loop eng p rs = Inr p' \<and> 0 \<le> cash p' \<and> 0 \<le> holdings p'
      \<and> length (st_equity p') = length (st_equity p) + length rs
      \<and> (\<forall>s\<in>set (st_equity p'). 0 \<le> snap_cash s)"
  using assms
proof (induction rs arbitrary: p)
  case Nil
  then show ?case by simp
next
  case (Cons r rs)
  have "0 < close r" using Cons.prems(1) by simp
  from step_cash[OF this Cons.prems(2,3,4,5)]
  obtain q s where q: "step eng p r = Inr q" "0 \<le> cash q" "0 \<le> holdings q"
    "st_equity q = st_equity p @ [s]" "snap_cash s = cash q"
    by blast
  have "\<forall>s\<in>set (st_equity q). 0 \<le> snap_cash s"
    using q Cons.prems(6) by auto
  from Cons.IH[OF _ Cons.prems(2,3) q(2,3) this] Cons.prems(1)
  obtain p' where "run_loop eng q rs = Inr p'" "0 \<le> cash p'" "0 \<le> holdings p'"
     "length (st_equity p') = length (st_equity q) + length rs"
     "\<forall>s\<in>set (st_equity p'). 0 \<le> snap_cash s"
    by auto
  then show ?case using q by simp
qed

text \<open>
  Claim C2, amended: for every bar series whose closes are all positive, every
  non-negative initial capital and every commission rate between 0 and 1, the loop does
  not raise and the cash balance is non-negative after each bar (after every prefix of
  the series, and in every equity snapshot of the result).
\<close>

theorem cash_never_negative:
  assumes "strategy data = Inr rows" "\<forall>r\<in>set rows. 0 < close r"
    and "0 \<le> initial_capital eng" "0 \<le> commission eng" "commission eng \<le> 1"
  shows "(\<forall>k\<le>length rows. \<exists>p. run_loop eng (initial_portfolio eng) (take k rows) = Inr p
             \<and> 0 \<le> cash p)
       \<and> (rows \<noteq> [] \<longrightarrow>
            (\<exists>res. run_backtest eng data strategy = Inr res
               \<and> length (equity_curve res) = length rows
               \<and> (\<forall>s\<in>set (equity_curve res). 0 \<le> snap_cash s)))"
proof -
  let ?p = "initial_portfolio eng"
  have init: "0 \<le> cash ?p" "0 \<le> holdings ?p" "\<forall>s\<in>set (st_equity ?p). 0 \<le> snap_cash s"
    using assms(3) by (simp_all add: initial_portfolio_def)
  have prefix: "\<exists>p. run_loop eng ?p (take k rows) = Inr p \<and> 0 \<le> cash p" for k
  proof -
    have "\<forall>r\<in>set (take k rows). 0 < close r"
      using assms(2) by (meson in_set_takeD)
    from run_loop_cash[OF this assms(4,5) init] show ?thesis by blast
  qed
  obtain p' where p': "run_loop eng ?p rows = Inr p'"
    "length (st_equity p') = length (st_equity ?p) + length rows"
    "\<forall>s\<in>set (st_equity p'). 0 \<le> snap_cash s"
    using run_loop_cash[OF assms(2,4,5) init] by blast
  have "rows \<noteq> [] \<Longrightarrow> st_equity p' \<noteq> []"
    using p'(2) by auto
  then have "rows \<noteq> [] \<longrightarrow>
            (\<exists>res. run_backtest eng data strategy = Inr res
               \<and> length (equity_curve res) = length rows
               \<and> (\<forall>s\<in>set (equity_curve res). 0 \<le> snap_cash s))"
    using assms(1) p' by (simp add: run_backtest_def initial_portfolio_def)
  then show ?thesis using prefix by blast
qed

theorem cash_never_negative_witness:
  "list_all (\<lambda>r. 0 < close r) round_trip_rows
   \<and> 0 \<le> initial_capital default_engine \<and> 0 \<le> commission default_engine
   \<and> commission default_engine \<le> 1
   \<and> run_backtest default_engine round_trip_rows Inr = Inr round_trip_result
   \<and> list_all (\<lambda>s. 0 \<le> snap_cash s) (equity_curve round_trip_result)
   \<and> (\<exists>p. run_loop default_engine (initial_portfolio default_engine) (take 1 round_trip_rows) = Inr p
         \<and> 0 \<le> cash p)"
proof -
  have a: "\<forall>r\<in>set round_trip_rows. 0 < close r" "0 \<le> initial_capital default_engine"
    "0 \<le> commission default_engine" "commission default_engine \<le> 1"
    by (simp_all add: round_trip_rows_def default_engine_def)
  have l: "round_trip_rows \<noteq> []" "1 \<le> length round_trip_rows"
    by (simp_all add: round_trip_rows_def)
  note t = cash_never_negative[of Inr round_trip_rows round_trip_rows default_engine, OF refl a]
  have "list_all (\<lambda>s. 0 \<le> snap_cash s) (equity_curve round_trip_result)"
    using t l(1) by (simp add: round_trip_run list_all_iff)
  moreover have "\<exists>p. run_loop default_engine (initial_portfolio default_engine)
        (take 1 round_trip_rows) = Inr p \<and> 0 \<le> cash p"
    using t l(2) by blast
  ultimately show ?thesis
    using a by (simp add: round_trip_run list_all_iff)
qed

text \<open>
  The claim as stated, for every non-negative commission rate, fails at a rate above 1,
  where a SELL's proceeds \<open>quantity * close * (1 - commission)\<close> are negative: with a
  capital of 100 and a rate of 2, buying 31 shares at 1 leaves 7 in cash, and selling
  them at 1 leaves - 24.
\<close>

theorem cash_negative_above_full_commission:
  "0 \<le> initial_capital costly_engine \<and> 0 \<le> commission costly_engine
   \<and> map close costly_rows = [1, 1]
   \<and> run_backtest costly_engine costly_rows Inr = Inr costly_result
   \<and> map snap_cash (equity_curve costly_result) = [7, - 24]"
  by (simp add: costly_run)
     (simp add: costly_engine_def default_engine_def costly_rows_def costly_result_def)

subsection \<open>The cost of a round trip\<close>

lemma execute_signal_ledger:
  assumes "ledger_ok eng p" "execute_signal eng p r = Inr p'"
  shows "ledger_ok eng p'"
proof -
  have b: "ledger_ok eng (buy eng p r n)" for n
    using assms(1)
    by (simp add: ledger_ok_def buy_def Let_def cash_flow_def share_flow_def well_priced_def)
  have s: "ledger_ok eng (sell eng p r)"
    using assms(1)
    by (simp add: ledger_ok_def sell_def Let_def cash_flow_def share_flow_def well_priced_def)
  show ?thesis
    using assms b s by (auto simp add: execute_signal_def split: if_splits sum.splits)
qed

lemma record_equity_ledger:
  "ledger_ok eng (record_equity p r) = ledger_ok eng p"
  by (simp add: ledger_ok_def record_equity_def Let_def)

lemma record_equity_value:
  "prev_portfolio_value (record_equity p r) =
     cash (record_equity p r) + real_of_int (holdings (record_equity p r)) * close r"
  by (simp add: record_equity_def Let_def)

lemma step_ledger:
  assumes "ledger_ok eng p" "step eng p r = Inr p'"
  shows "ledger_ok eng p' \<and> prev_portfolio_value p' = cash p' + real_of_int (holdings p') * close r
     \<and> st_equity p' \<noteq> []"
  using assms execute_signal_ledger[of eng p r]
  by (auto simp add: step_def record_equity_ledger record_equity_value split: sum.splits)
     (simp add: record_equity_def Let_def)

lemma run_loop_ledger:
  assumes "ledger_ok eng p" "run_loop eng p rs = Inr p'"
  shows "ledger_ok eng p'"
  using assms
proof (induction rs arbitrary: p)
  case Nil
  then show ?case by simp
next
  case (Cons r rs)
  then show ?case
    by (auto split: sum.splits dest: step_ledger)
qed

lemma run_loop_final_value:
  assumes "run_loop eng p rs = Inr p'" "rs \<noteq> []" "ledger_ok eng p"
  shows "prev_portfolio_value p' = cash p' + real_of_int (holdings p') * close (last rs)"
  using assms
proof (induction rs arbitrary: p)
  case Nil
  then show ?case by simp
next
  case (Cons r rs)
  then obtain q where q: "step eng p r = Inr q" "run_loop eng q rs = Inr p'"
    by (auto split: sum.splits)
  have lq: "ledger_ok eng q"
    "prev_portfolio_value q = cash q + real_of_int (holdings q) * close r"
    using step_ledger[OF Cons.prems(3) q(1)] by simp_all
  show ?case
  proof (cases "rs = []")
    case True
    then show ?thesis using q lq by simp
  next
    case False
    then show ?thesis using Cons.IH[OF q(2) False lq(1)] by simp
  qed
qed


lemma assign_pnl_flows:
  "map cash_flow (assign_pnl prev ts) = map cash_flow ts"
  "map share_flow (assign_pnl prev ts) = map share_flow ts"
  "list_all (well_priced eng) (assign_pnl prev ts) = list_all (well_priced eng) ts"
  by (induction ts arbitrary: prev)
     (simp_all add: cash_flow_def share_flow_def well_priced_def)

lemma calculate_pnl_flows:
  "map cash_flow (calculate_pnl ts) = map cash_flow ts"
  "map share_flow (calculate_pnl ts) = map share_flow ts"
  "list_all (well_priced eng) (calculate_pnl ts) = list_all (well_priced eng) ts"
  by (cases ts; simp add: assign_pnl_flows)+

lemma initial_ledger: "ledger_ok eng (initial_portfolio eng)"
  by (simp add: ledger_ok_def initial_portfolio_def)

text \<open>
  Claim C4: whenever a run's trade log is exactly one BUY of quantity \<open>q\<close> at close \<open>p\<close>
  followed by one SELL of the same quantity at the same close, the portfolio value has
  decreased by the sum of the two recorded commissions, which is \<open>2 * q * p * c\<close>. (The
  SELL need not be on the next bar, and \<open>p\<close> and \<open>c\<close> are unrestricted.)
\<close>

theorem round_trip_cost:
  assumes "run_backtest eng data strategy = Inr res"
    and "trades res = [b, s]"
    and "action b = BUY" and "action s = SELL"
    and "price b = p" and "price s = p"
    and "quantity b = q" and "quantity s = q"
  shows "result_initial_capital res - final_portfolio_value res
           = trade_commission b + trade_commission s
       \<and> result_initial_capital res - final_portfolio_value res
           = 2 * real_of_int q * p * commission eng"
proof -
  from assms(1) obtain rows pf where rows: "strategy data = Inr rows"
    and pf: "run_loop eng (initial_portfolio eng) rows = Inr pf"
    and ne: "st_equity pf \<noteq> []"
    and res: "res = \<lparr>equity_curve = st_equity pf, trades = calculate_pnl (st_trades pf),
                     final_portfolio_value = prev_portfolio_value pf,
                     result_initial_capital = initial_capital eng\<rparr>"
    by (auto simp add: run_backtest_def split: sum.splits if_splits)
  have rne: "rows \<noteq> []"
    using run_loop_length[OF pf] ne by (auto simp add: initial_portfolio_def)
  have led: "ledger_ok eng pf"
    using run_loop_ledger[OF initial_ledger pf] .
  have tr: "calculate_pnl (st_trades pf) = [b, s]"
    using assms(2) res by simp
  have cf: "sum_list (map cash_flow (st_trades pf)) = cash_flow b + cash_flow s"
    unfolding calculate_pnl_flows(1)[of "st_trades pf", symmetric] tr by simp
  have sf: "sum_list (map share_flow (st_trades pf)) = share_flow b + share_flow s"
    unfolding calculate_pnl_flows(2)[of "st_trades pf", symmetric] tr by simp
  have wp: "well_priced eng b" "well_priced eng s"
    using calculate_pnl_flows(3)[of eng "st_trades pf", symmetric] led
    unfolding tr by (simp_all add: ledger_ok_def)
  have h0: "holdings pf = 0"
    using led sf assms(3,4,7,8) by (simp add: ledger_ok_def share_flow_def)
  have vb: "trade_value b = real_of_int q * p * (1 + commission eng)"
    "trade_commission b = trade_value b * commission eng"
    using wp(1) assms(3,5,7) by (simp_all add: well_priced_def)
  have vs: "trade_value s = real_of_int q * p * (1 - commission eng)"
    "trade_commission s = trade_value s * commission eng"
    using wp(2) assms(4,6,8) by (simp_all add: well_priced_def)
  have c: "cash pf = initial_capital eng - trade_value b + trade_value s"
    using led cf assms(3,4) by (simp add: ledger_ok_def cash_flow_def)
  have fv: "final_portfolio_value res = cash pf"
    using run_loop_final_value[OF pf rne initial_ledger] h0 res by simp
  have cb: "trade_commission b = real_of_int q * p * (1 + commission eng) * commission eng"
    using vb by simp
  have cs: "trade_commission s = real_of_int q * p * (1 - commission eng) * commission eng"
    using vs by simp
  have d: "result_initial_capital res - final_portfolio_value res
       = real_of_int q * p * (1 + commission eng) - real_of_int q * p * (1 - commission eng)"
    using fv c res vb(1) vs(1) by simp
  show ?thesis
    unfolding d cb cs by (simp add: algebra_simps)
qed

theorem round_trip_cost_witness:
  "run_backtest default_engine round_trip_rows Inr = Inr round_trip_result
   \<and> map action (trades round_trip_result) = [BUY, SELL]
   \<and> map price (trades round_trip_result) = [100, 100]
   \<and> map quantity (trades round_trip_result) = [94, 94]
   \<and> map trade_commission (trades round_trip_result) = [47047 / 5000, 46953 / 5000]
   \<and> result_initial_capital round_trip_result - final_portfolio_value round_trip_result
       = 47047 / 5000 + 46953 / 5000
   \<and> result_initial_capital round_trip_result - final_portfolio_value round_trip_result
       = 2 * 94 * 100 * commission default_engine"
proof -
  let ?b = "\<lparr>trade_date = d1, action = BUY, price = 100, quantity = 94,
             trade_value = 47047 / 5, trade_commission = 47047 / 5000, pnl = None\<rparr>"
  let ?s = "\<lparr>trade_date = d2, action = SELL, price = 100, quantity = 94,
             trade_value = 46953 / 5, trade_commission = 46953 / 5000, pnl = Some 0\<rparr>"
  have tr: "trades round_trip_result = [?b, ?s]"
    by (simp add: round_trip_result_def)
  have "result_initial_capital round_trip_result - final_portfolio_value round_trip_result
           = trade_commission ?b + trade_commission ?s
       \<and> result_initial_capital round_trip_result - final_portfolio_value round_trip_result
           = 2 * real_of_int 94 * 100 * commission default_engine"
    by (rule round_trip_cost[OF round_trip_run tr]) simp_all
  then show ?thesis
    by (simp add: round_trip_run tr)
qed

section \<open>Risk checks, data preparation and metrics\<close>

text \<open>
  Claim C8: for every positive entry price, every current price and every threshold,
  a position type that is not exactly \<open>'long'\<close> gets the short-position test: the stop
  loss fires when \<open>(current_price - entry_price) / entry_price\<close> has reached
  \<open>stop_loss_pct\<close>, the take profit when \<open>(entry_price - current_price) / entry_price\<close>
  has reached \<open>take_profit_pct\<close>; these mirror the tests for \<open>'long'\<close>, and nothing is
  rejected.
\<close>

theorem non_long_position_is_short:
  assumes "position_type \<noteq> ''long''" "0 < entry_price"
  shows "check_stop_loss eng entry_price current_price position_type
           = Inr (stop_loss_pct eng \<le> (current_price - entry_price) / entry_price)
       \<and> check_take_profit eng entry_price current_price position_type
           = Inr (take_profit_pct eng \<le> (entry_price - current_price) / entry_price)
       \<and> check_stop_loss eng entry_price current_price ''long''
           = Inr (stop_loss_pct eng \<le> (entry_price - current_price) / entry_price)
       \<and> check_take_profit eng entry_price current_price ''long''
           = Inr (take_profit_pct eng \<le> (current_price - entry_price) / entry_price)"
  using assms by (simp add: check_stop_loss_def check_take_profit_def)

theorem non_long_position_is_short_witness:
  "''LONG'' \<noteq> ''long'' \<and> (0::real) < 100
   \<and> check_stop_loss default_engine 100 106 ''LONG'' = Inr True
   \<and> check_stop_loss default_engine 100 106 ''long'' = Inr False
   \<and> check_take_profit default_engine 100 80 ''Long'' = Inr True
   \<and> check_take_profit default_engine 100 80 ''long'' = Inr False"
  using non_long_position_is_short[of "''LONG''" 100 default_engine 106]
    non_long_position_is_short[of "''Long''" 100 default_engine 80]
  by (simp add: default_engine_def)

lemma prepare_data_cases:
  "prepare_data df =
     (if ''Open'' \<notin> fst ` set df then Inl (ValueError ''Missing required column: Open'')
      else if ''High'' \<notin> fst ` set df then Inl (ValueError ''Missing required column: High'')
      else if ''Low'' \<notin> fst ` set df then Inl (ValueError ''Missing required column: Low'')
      else if ''Close'' \<notin> fst ` set df then Inl (ValueError ''Missing required column: Close'')
      else if ''Volume'' \<notin> fst ` set df then Inl (ValueError ''Missing required column: Volume'')
      else Inr (map (\<lambda>(c, xs). (c, bfill (ffill xs))) df))"
  by (simp add: prepare_data_def required_columns_def columns_def)

text \<open>
  Claim C10: on every frame whose open, high, low, close and volume columns carry the
  lowercase names, none of the capitalised names being a column, \<open>prepare_data\<close> raises
  ValueError for \<open>'Open'\<close>, whatever other columns there are, and so it does on any frame
  without a column \<open>'Open'\<close>. It returns a frame exactly when \<open>'Open'\<close>, \<open>'High'\<close>, \<open>'Low'\<close>,
  \<open>'Close'\<close> and \<open>'Volume'\<close> are all columns, and otherwise raises ValueError for the first
  of them that is missing.
\<close>

theorem prepare_data_rejects_lowercase:
  "(set [''open'', ''high'', ''low'', ''close'', ''volume''] \<subseteq> fst ` set df
      \<and> set [''Open'', ''High'', ''Low'', ''Close'', ''Volume''] \<inter> fst ` set df = {}
      \<longrightarrow> prepare_data df = Inl (ValueError ''Missing required column: Open''))
   \<and> (''Open'' \<notin> fst ` set df \<longrightarrow>
        prepare_data df = Inl (ValueError ''Missing required column: Open''))
   \<and> ((\<exists>d. prepare_data df = Inr d) \<longleftrightarrow>
        ''Open'' \<in> fst ` set df \<and> ''High'' \<in> fst ` set df \<and> ''Low'' \<in> fst ` set df
        \<and> ''Close'' \<in> fst ` set df \<and> ''Volume'' \<in> fst ` set df)
   \<and> prepare_data df =
     (if ''Open'' \<notin> fst ` set df then Inl (ValueError ''Missing required column: Open'')
      else if ''High'' \<notin> fst ` set df then Inl (ValueError ''Missing required column: High'')
      else if ''Low'' \<notin> fst ` set df then Inl (ValueError ''Missing required column: Low'')
      else if ''Close'' \<notin> fst ` set df then Inl (ValueError ''Missing required column: Close'')
      else if ''Volume'' \<notin> fst ` set df then Inl (ValueError ''Missing required column: Volume'')
      else Inr (map (\<lambda>(c, xs). (c, bfill (ffill xs))) df))"
proof (intro conjI impI)
  assume "set [''open'', ''high'', ''low'', ''close'', ''volume''] \<subseteq> fst ` set df
      \<and> set [''Open'', ''High'', ''Low'', ''Close'', ''Volume''] \<inter> fst ` set df = {}"
  then have "''Open'' \<notin> fst ` set df" by auto
  then show "prepare_data df = Inl (ValueError ''Missing required column: Open'')"
    by (simp add: prepare_data_cases)
next
  assume "''Open'' \<notin> fst ` set df"
  then show "prepare_data df = Inl (ValueError ''Missing required column: Open'')"
    by (simp add: prepare_data_cases)
next
  show "(\<exists>d. prepare_data df = Inr d) \<longleftrightarrow>
        ''Open'' \<in> fst ` set df \<and> ''High'' \<in> fst ` set df \<and> ''Low'' \<in> fst ` set df
        \<and> ''Close'' \<in> fst ` set df \<and> ''Volume'' \<in> fst ` set df"
    unfolding prepare_data_cases by simp
next
  show "prepare_data df =
     (if ''Open'' \<notin> fst ` set df then Inl (ValueError ''Missing required column: Open'')
      else if ''High'' \<notin> fst ` set df then Inl (ValueError ''Missing required column: High'')
      else if ''Low'' \<notin> fst ` set df then Inl (ValueError ''Missing required column: Low'')
      else if ''Close'' \<notin> fst ` set df then Inl (ValueError ''Missing required column: Close'')
      else if ''Volume'' \<notin> fst ` set df then Inl (ValueError ''Missing required column: Volume'')
      else Inr (map (\<lambda>(c, xs). (c, bfill (ffill xs))) df))"
    by (rule prepare_data_cases)
qed

theorem prepare_data_rejects_lowercase_witness:
  "set [''open'', ''high'', ''low'', ''close'', ''volume''] \<subseteq> fst ` set lowercase_frame
   \<and> set [''Open'', ''High'', ''Low'', ''Close'', ''Volume''] \<inter> fst ` set lowercase_frame = {}
   \<and> ''Dividends'' \<in> fst ` set lowercase_frame
   \<and> prepare_data lowercase_frame = Inl (ValueError ''Missing required column: Open'')
   \<and> prepare_data open_only_frame = Inl (ValueError ''Missing required column: High'')
   \<and> prepare_data capitalised_frame = Inr capitalised_frame_filled"
proof -
  have a: "set [''open'', ''high'', ''low'', ''close'', ''volume''] \<subseteq> fst ` set lowercase_frame
      \<and> set [''Open'', ''High'', ''Low'', ''Close'', ''Volume''] \<inter> fst ` set lowercase_frame = {}"
    "''Dividends'' \<in> fst ` set lowercase_frame"
    by (simp_all add: lowercase_frame_def)
  note l = prepare_data_rejects_lowercase[of lowercase_frame]
  have b: "prepare_data lowercase_frame = Inl (ValueError ''Missing required column: Open'')"
    using l[THEN conjunct1] a(1) by (rule mp)
  have c: "prepare_data open_only_frame = Inl (ValueError ''Missing required column: High'')"
    using prepare_data_rejects_lowercase[of open_only_frame]
    by (simp add: open_only_frame_def)
  have d: "prepare_data capitalised_frame = Inr capitalised_frame_filled"
    using prepare_data_rejects_lowercase[of capitalised_frame]
    by (simp add: capitalised_frame_def capitalised_frame_filled_def ffill_def bfill_def isnan_def)
  show ?thesis
    using a b c d by blast
qed

lemma fdiv_NaN_right: "fdiv x NaN = NaN"
  by (cases x) simp_all

lemma fmul_NaN_left: "fmul NaN x = NaN"
  by (cases x) simp_all

lemma sharpe_single_observation:
  assumes "dropna (map returns (equity_curve res)) = [x]"
  shows "calculate_sharpe_ratio res rf = NaN"
  using assms
  by (simp add: calculate_sharpe_ratio_def series_std_def feq_def fdiv_NaN_right fmul_NaN_left)

lemma sortino_single_negative:
  assumes "dropna (map returns (equity_curve res)) = rets" "filter (\<lambda>x. flt x (Num 0)) rets = [x]"
  shows "calculate_sortino_ratio res rf = NaN"
  using assms
  by (auto simp add: calculate_sortino_ratio_def Let_def series_std_def feq_def fdiv_NaN_right fmul_NaN_left)

lemma one_bar_run: "run_backtest default_engine one_bar Inr = Inr one_bar_result"
  by (simp add: run_backtest_def one_bar_def initial_portfolio_def step_def
      execute_signal_def signal_of_def record_equity_def Let_def default_engine_def
      one_bar_result_def)

text \<open>
  Claim C3 does not hold of the code. A backtest over one bar has one return; its sample
  standard deviation is NaN, which is not equal to 0, so the guard of
  \<open>calculate_sharpe_ratio\<close> lets it through and the ratio is NaN. On the equity curve
  \<open>[10000, 11000, 9900, 9900]\<close> there is one negative return, the downside deviation is
  NaN, and \<open>calculate_sortino_ratio\<close> returns NaN.
\<close>

theorem sharpe_and_sortino_return_nan:
  "run_backtest default_engine one_bar Inr = Inr one_bar_result
   \<and> calculate_sharpe_ratio one_bar_result (2 / 100) = NaN
   \<and> map returns (equity_curve spec_example_result) = [Num 0, Num (1 / 10), Num (- (1 / 10)), Num 0]
   \<and> calculate_sortino_ratio spec_example_result (2 / 100) = NaN"
proof -
  have a: "dropna (map returns (equity_curve one_bar_result)) = [Num 0]"
    by (simp add: one_bar_result_def dropna_def isnan_def)
  have b: "dropna (map returns (equity_curve spec_example_result))
      = [Num 0, Num (1 / 10), Num (- (1 / 10)), Num 0]"
    by (simp add: spec_example_result_def dropna_def isnan_def)
  have c: "filter (\<lambda>x. flt x (Num 0)) [Num 0, Num (1 / 10), Num (- (1 / 10)), Num 0]
      = [Num (- (1 / 10))]"
    by simp
  show ?thesis
    using one_bar_run sharpe_single_observation[OF a] sortino_single_negative[OF b c]
    by (simp add: spec_example_result_def)
qed

subsection \<open>Monthly returns\<close>

lemma monthly_value_eq:
  "monthly_value start_value end_value =
     (if start_value = 0 then signed_inf (fsign (Num end_value))
      else Num ((end_value - start_value) / start_value * 100))"
  by (simp add: monthly_value_def signed_inf_def)

lemma month_entry_apply:
  "month_entry ec acc m' m =
     (if m = m' \<and> 1 < length (month_data ec m)
      then Some (monthly_value (portfolio_value (hd (month_data ec m)))
                               (portfolio_value (last (month_data ec m))))
      else acc m)"
  by (auto simp add: month_entry_def Let_def monthly_value_def simp del: fdiv.simps fmul.simps)

lemma foldl_month_entry:
  "foldl (month_entry ec) acc ms m =
     (if m \<in> set ms \<and> 1 < length (month_data ec m)
      then Some (monthly_value (portfolio_value (hd (month_data ec m)))
                               (portfolio_value (last (month_data ec m))))
      else acc m)"
proof (induction ms arbitrary: acc)
  case Nil
  then show ?case by simp
next
  case (Cons a ms)
  have "foldl (month_entry ec) acc (a # ms) m
      = foldl (month_entry ec) (month_entry ec acc a) ms m"
    by simp
  also have "\<dots> =
     (if m \<in> set ms \<and> 1 < length (month_data ec m)
      then Some (monthly_value (portfolio_value (hd (month_data ec m)))
                               (portfolio_value (last (month_data ec m))))
      else month_entry ec acc a m)"
    by (rule Cons.IH)
  also have "\<dots> =
     (if m \<in> set (a # ms) \<and> 1 < length (month_data ec m)
      then Some (monthly_value (portfolio_value (hd (month_data ec m)))
                               (portfolio_value (last (month_data ec m))))
      else acc m)"
    by (auto simp add: month_entry_apply)
  finally show ?case .
qed

lemma set_unique: "set (unique xs) = set xs"
  by (simp add: unique_def)

lemma month_data_absent:
  assumes "m \<notin> set (map (\<lambda>s. month_of (snap_date s)) ec)"
  shows "month_data ec m = []"
  using assms by (auto simp add: month_data_def filter_empty_conv)

lemma monthly_returns_lookup:
  "calculate_monthly_returns res m =
     (if 1 < length (month_data (equity_curve res) m)
      then Some (monthly_value (portfolio_value (hd (month_data (equity_curve res) m)))
                               (portfolio_value (last (month_data (equity_curve res) m))))
      else None)"
proof (cases "m \<in> set (map (\<lambda>s. month_of (snap_date s)) (equity_curve res))")
  case True
  then show ?thesis
    by (simp add: calculate_monthly_returns_def foldl_month_entry set_unique)
next
  case False
  then have "month_data (equity_curve res) m = []"
    by (rule month_data_absent)
  then show ?thesis
    by (simp add: calculate_monthly_returns_def foldl_month_entry)
qed

text \<open>
  Claim C7: for every equity curve and every calendar month, \<open>calculate_monthly_returns\<close>
  holds an entry for the month exactly when the month has at least two snapshots, and the
  entry is \<open>(last - first) / first * 100\<close> over the month's first and last portfolio
  values. (When the first value is 0 the float division gives an infinity or NaN.)
\<close>

theorem monthly_returns_per_month:
  "calculate_monthly_returns res (y, mo) =
     (let md = filter (\<lambda>s. year (snap_date s) = y \<and> month (snap_date s) = mo) (equity_curve res);
          start_value = portfolio_value (hd md);
          end_value = portfolio_value (last md)
      in if 2 \<le> length md
         then Some (if start_value = 0 then signed_inf (fsign (Num end_value))
                    else Num ((end_value - start_value) / start_value * 100))
         else None)"
proof -
  have "month_data (equity_curve res) (y, mo)
      = filter (\<lambda>s. year (snap_date s) = y \<and> month (snap_date s) = mo) (equity_curve res)"
    by (simp add: month_data_def month_of_def)
  then show ?thesis
    by (simp add: monthly_returns_lookup monthly_value_eq Let_def)
qed

theorem monthly_returns_per_month_example:
  "calculate_monthly_returns monthly_example (2024, 1) = Some (Num 10)
   \<and> calculate_monthly_returns monthly_example (2024, 2) = None
   \<and> calculate_monthly_returns monthly_example (2024, 3) = Some (Num (- 5))
   \<and> calculate_monthly_returns monthly_example (2023, 12) = None"
  using monthly_returns_per_month[of monthly_example 2024 1]
    monthly_returns_per_month[of monthly_example 2024 2]
    monthly_returns_per_month[of monthly_example 2024 3]
    monthly_returns_per_month[of monthly_example 2023 12]
  by (simp add: monthly_example_def)

section \<open>Properties of the strategies\<close>

subsection \<open>Columns and rows\<close>

lemma length_assign_where [simp]:
  "length (assign_where c v xs) = min (length c) (length xs)"
  by (simp add: assign_where_def)

lemma nth_assign_where:
  "i < length c \<Longrightarrow> i < length xs \<Longrightarrow>
     assign_where c v xs ! i = (if c ! i then v else xs ! i)"
  by (simp add: assign_where_def)

lemma length_rolling_mean [simp]: "length (rolling_mean w xs) = length xs"
  by (simp add: rolling_mean_def)

lemma length_rolling_std [simp]: "length (rolling_std w xs) = length xs"
  by (simp add: rolling_std_def)

lemma nth_ma_signal_column:
  assumes "length fast = length slow" "i < length fast"
  shows "ma_signal_column fast slow ! i =
     (if flt (fast ! i) (slow ! i) then - 1 else if fgt (fast ! i) (slow ! i) then 1 else 0)"
  using assms by (simp add: ma_signal_column_def nth_assign_where)

lemma length_ma_frame [simp]: "length (ma_frame s data) = length data"
  by (simp add: ma_frame_def Let_def)

lemma nth_ma_frame:
  assumes "i < length data"
  shows "ma_frame s data ! i =
     \<lparr>date = date (data ! i), close = close (data ! i),
      signal = Some (let f = rolling_mean (nat (fast_period s)) (map (\<lambda>b. Num (close b)) data) ! i;
                         sl = rolling_mean (nat (slow_period s)) (map (\<lambda>b. Num (close b)) data) ! i
                     in if flt f sl then - 1 else if fgt f sl then 1 else 0),
      ma_fast = rolling_mean (nat (fast_period s)) (map (\<lambda>b. Num (close b)) data) ! i,
      ma_slow = rolling_mean (nat (slow_period s)) (map (\<lambda>b. Num (close b)) data) ! i\<rparr>"
  using assms by (simp add: ma_frame_def Let_def nth_ma_signal_column)

lemma nth_bb_signal_column:
  assumes "length upper = length closes" "length lower = length closes" "i < length closes"
  shows "bb_signal_column closes upper lower ! i =
     (if fge (closes ! i) (upper ! i) then - 1 else if fle (closes ! i) (lower ! i) then 1 else 0)"
  using assms by (simp add: bb_signal_column_def nth_assign_where)

lemma length_bb_frame [simp]: "length (bb_frame s data) = length data"
  by (simp add: bb_frame_def Let_def)

lemma nth_bb_frame:
  assumes "i < length data"
  shows "\<exists>m sd. bb_frame s data ! i =
     \<lparr>date = date (data ! i), close = close (data ! i),
      signal = Some (if fge (Num (close (data ! i))) (fadd m (fmul sd (Num (std_dev s)))) then - 1
                     else if fle (Num (close (data ! i))) (fsub m (fmul sd (Num (std_dev s)))) then 1
                     else 0),
      ma = m, std = sd,
      upper_band = fadd m (fmul sd (Num (std_dev s))),
      lower_band = fsub m (fmul sd (Num (std_dev s)))\<rparr>
     \<and> m = rolling_mean (nat (bb_period s)) (map (\<lambda>b. Num (close b)) data) ! i
     \<and> sd = rolling_std (nat (bb_period s)) (map (\<lambda>b. Num (close b)) data) ! i"
  using assms by (simp add: bb_frame_def Let_def nth_bb_signal_column)

lemma length_shift1 [simp]: "length (shift1 xs) = length xs"
  by (simp add: shift1_def)

lemma nth_shift1:
  "i < length xs \<Longrightarrow> shift1 xs ! i = (if i = 0 then NaN else xs ! (i - 1))"
  by (cases i) (auto simp add: shift1_def nth_butlast)

lemma fge_NaN [simp]: "\<not> fge NaN x" "\<not> fle NaN x"
  by (cases x; simp add: fge_def fle_def feq_def)+

lemma nth_macd_signal_column:
  assumes "length signal_line = length macd_line" "i < length macd_line"
  shows "macd_signal_column macd_line signal_line ! i =
     (if 0 < i \<and> flt (macd_line ! i) (signal_line ! i)
           \<and> fge (macd_line ! (i - 1)) (signal_line ! (i - 1)) then - 1
      else if 0 < i \<and> fgt (macd_line ! i) (signal_line ! i)
           \<and> fle (macd_line ! (i - 1)) (signal_line ! (i - 1)) then 1
      else 0)"
  using assms by (cases "i = 0") (simp_all add: macd_signal_column_def nth_assign_where nth_shift1)

lemma length_macd_frame [simp]: "length (macd_frame data ml sl) = length data"
  by (simp add: macd_frame_def Let_def)

lemma nth_macd_frame:
  assumes "length ml = length data" "length sl = length data" "i < length data"
  shows "macd_frame data ml sl ! i =
     \<lparr>date = date (data ! i), close = close (data ! i),
      signal = Some (macd_signal_column (map Num ml) (map Num sl) ! i),
      macd = Num (ml ! i), macd_signal = Num (sl ! i),
      macd_histogram = Num (ml ! i - sl ! i)\<rparr>"
  using assms by (simp add: macd_frame_def Let_def)

lemma length_ewm_from [simp]: "length (ewm_from a n d xs) = length xs"
  by (induction xs arbitrary: n d) simp_all

lemma ewm_mean_length: "ewm_mean sp xs = Inr ys \<Longrightarrow> length ys = length xs"
  by (auto simp add: ewm_mean_def split: if_splits)

subsection \<open>Rolling windows over finite cells\<close>

lemma foldl_fadd_Num: "foldl fadd (Num a) (map Num xs) = Num (a + sum_list xs)"
  by (induction xs arbitrary: a) (simp_all add: add.assoc)

lemma series_sum_Num: "series_sum (map Num xs) = Num (sum_list xs)"
  by (simp add: series_sum_def foldl_fadd_Num)

lemma series_mean_Num:
  "xs \<noteq> [] \<Longrightarrow> series_mean (map Num xs) = Num (sum_list xs / real (length xs))"
  by (simp add: series_mean_def series_sum_Num)

lemma window_map: "window w i (map f xs) = map f (window w i xs)"
  by (simp add: window_def take_map drop_map)

lemma length_window:
  assumes "w \<le> Suc i" "i < length xs"
  shows "length (window w i xs) = w"
proof -
  have "w \<le> length xs - (Suc i - w)" using assms by linarith
  then show ?thesis by (simp add: window_def)
qed

lemma window_nth:
  assumes "w \<le> Suc i" "i < length xs"
  shows "window w i xs = map ((!) xs) [Suc i - w..<Suc i]"
proof (rule nth_equalityI)
  show "length (window w i xs) = length (map ((!) xs) [Suc i - w..<Suc i])"
    using assms by (simp add: length_window del: upt_Suc)
next
  fix k
  assume "k < length (window w i xs)"
  then have k: "k < w" using assms by (simp add: length_window)
  have a: "Suc i - w + k < Suc i" using k assms by linarith
  have "Suc i - w \<le> length xs" using assms by linarith
  then have "window w i xs ! k = xs ! (Suc i - w + k)"
    using k by (simp add: window_def)
  moreover have "map ((!) xs) [Suc i - w..<Suc i] ! k = xs ! (Suc i - w + k)"
    using a k assms by (simp del: upt_Suc)
  ultimately show "window w i xs ! k = map ((!) xs) [Suc i - w..<Suc i] ! k"
    by simp
qed

lemma sum_list_window:
  assumes "w \<le> Suc i" "i < length xs"
  shows "sum_list (map f (window w i xs)) = (\<Sum>j = Suc i - w..<Suc i. f (xs ! j))"
proof -
  have "sum_list (map f (map ((!) xs) [Suc i - w..<Suc i]))
      = sum_list (map (\<lambda>j. f (xs ! j)) [Suc i - w..<Suc i])"
    by (simp add: comp_def)
  also have "\<dots> = sum (\<lambda>j. f (xs ! j)) (set [Suc i - w..<Suc i])"
    by (rule interv_sum_list_conv_sum_set_nat)
  also have "\<dots> = (\<Sum>j = Suc i - w..<Suc i. f (xs ! j))"
    by (simp only: set_upt)
  finally show ?thesis
    unfolding window_nth[OF assms] .
qed

lemma mean_window:
  assumes "w \<le> Suc i" "i < length xs"
  shows "sum_list (window w i xs) / real w = simple_average w i xs"
  using sum_list_window[OF assms, of "\<lambda>x. x"] by (simp add: simple_average_def)

lemma rolling_mean_Num:
  assumes "i < length xs"
  shows "rolling_mean w (map Num xs) ! i =
     (if 1 \<le> w \<and> w \<le> Suc i then Num (simple_average w i xs) else NaN)"
proof (cases "1 \<le> w \<and> w \<le> Suc i")
  case True
  then have l: "length (window w i xs) = w"
    using assms by (simp add: length_window)
  then have "window w i xs \<noteq> []" using True by auto
  then have "series_mean (map Num (window w i xs)) = Num (simple_average w i xs)"
    using mean_window[of w i xs] True assms l by (simp add: series_mean_Num)
  then show ?thesis
    using assms True by (simp add: rolling_mean_def window_map)
next
  case False
  then show ?thesis using assms by (auto simp add: rolling_mean_def)
qed

lemma series_std_Num:
  assumes "2 \<le> length ys"
  shows "series_std (map Num ys) =
     Num (sqrt (sum_list (map (\<lambda>y. (y - sum_list ys / real (length ys))\<^sup>2) ys)
                 / real (length ys - 1)))"
proof -
  have ne: "ys \<noteq> []" using assms by auto
  have m: "series_mean (map Num ys) = Num (sum_list ys / real (length ys))"
    using ne by (rule series_mean_Num)
  have sq: "map (\<lambda>x. fmul (fsub x (Num (sum_list ys / real (length ys))))
                          (fsub x (Num (sum_list ys / real (length ys))))) (map Num ys)
      = map Num (map (\<lambda>y. (y - sum_list ys / real (length ys))\<^sup>2) ys)"
    by (simp add: fsub_def power2_eq_square)
  have nn: "0 \<le> sum_list (map (\<lambda>y. (y - sum_list ys / real (length ys))\<^sup>2) ys)
                 / real (length ys - 1)"
    by (intro divide_nonneg_nonneg sum_list_nonneg) auto
  have d: "real (length ys - 1) \<noteq> 0" using assms by auto
  show ?thesis
    unfolding series_std_def m sq series_sum_Num
    using assms nn d by simp
qed

lemma rolling_std_Num:
  assumes "i < length xs"
  shows "rolling_std w (map Num xs) ! i =
     (if 2 \<le> w \<and> w \<le> Suc i then Num (sample_deviation w i xs) else NaN)"
proof (cases "2 \<le> w \<and> w \<le> Suc i")
  case True
  then have w: "w \<le> Suc i" "1 \<le> w" by auto
  have l: "length (window w i xs) = w"
    using assms w by (simp add: length_window)
  have mw: "sum_list (window w i xs) / real w = simple_average w i xs"
    using mean_window[OF w(1) assms] .
  have "series_std (map Num (window w i xs)) =
     Num (sqrt (sum_list (map (\<lambda>y. (y - simple_average w i xs)\<^sup>2) (window w i xs))
                 / real (w - 1)))"
    using series_std_Num[of "window w i xs"] True l mw by simp
  also have "\<dots> = Num (sample_deviation w i xs)"
    unfolding sample_deviation_def sum_list_window[OF w(1) assms] ..
  finally show ?thesis
    using assms True by (simp add: rolling_std_def window_map)
next
  case False
  show ?thesis
  proof (cases "1 \<le> w \<and> w \<le> Suc i")
    case True
    with False have "w = 1" by auto
    then have "length (window w i xs) = 1"
      using assms by (simp add: length_window)
    then have "series_std (map Num (window w i xs)) = NaN"
      by (simp add: series_std_def)
    then show ?thesis
      using assms True False by (simp add: rolling_std_def window_map)
  next
    case F: False
    then show ?thesis using assms False by (auto simp add: rolling_std_def)
  qed
qed

subsection \<open>The bars a strategy keeps\<close>

lemma filter_map_upt:
  assumes "\<And>i. i < n \<Longrightarrow> P (g i) = Q i"
    and "\<And>i. i < n \<Longrightarrow> Q i \<Longrightarrow> g i = h i"
  shows "filter P (map g [0..<n]) = map h (filter Q [0..<n])"
proof -
  have "filter P (map g [0..<n]) = map g (filter (P \<circ> g) [0..<n])"
    by (rule filter_map)
  also have "filter (P \<circ> g) [0..<n] = filter Q [0..<n]"
    by (rule filter_cong) (simp_all add: assms(1))
  also have "map g (filter Q [0..<n]) = map h (filter Q [0..<n])"
    by (rule map_cong) (simp_all add: assms(2))
  finally show ?thesis .
qed

lemma filter_frame:
  assumes "length frame = n"
    and "\<And>i. i < n \<Longrightarrow> P (frame ! i) = Q i"
    and "\<And>i. i < n \<Longrightarrow> Q i \<Longrightarrow> frame ! i = h i"
  shows "filter P frame = map h (filter Q [0..<n])"
proof -
  have "frame = map ((!) frame) [0..<n]"
    unfolding assms(1)[symmetric] by (rule map_nth[symmetric])
  then have "filter P frame = filter P (map ((!) frame) [0..<n])" by simp
  also have "\<dots> = map h (filter Q [0..<n])"
    by (rule filter_map_upt) (simp_all add: assms(2,3))
  finally show ?thesis .
qed

lemma closes_Num: "map (\<lambda>b. Num (close b)) data = map Num (map close data)"
  by simp

lemma crossover_frame:
  assumes "0 \<le> fast_period s" "0 \<le> slow_period s"
  shows "ma_generate_signals s data =
     Inr (map (ma_row_at s data)
            (filter (\<lambda>i. 1 \<le> fast_period s \<and> nat (fast_period s) \<le> Suc i
                        \<and> 1 \<le> slow_period s \<and> nat (slow_period s) \<le> Suc i)
               [0..<length data]))"
proof -
  let ?Q = "\<lambda>i. 1 \<le> fast_period s \<and> nat (fast_period s) \<le> Suc i
                        \<and> 1 \<le> slow_period s \<and> nat (slow_period s) \<le> Suc i"
  have f: "rolling_mean (nat (fast_period s)) (map (\<lambda>b. Num (close b)) data) ! i
      = (if 1 \<le> fast_period s \<and> nat (fast_period s) \<le> Suc i
         then Num (simple_average (nat (fast_period s)) i (map close data)) else NaN)"
    if "i < length data" for i
    unfolding closes_Num using rolling_mean_Num[of i "map close data" "nat (fast_period s)"] that
    by auto
  have sl: "rolling_mean (nat (slow_period s)) (map (\<lambda>b. Num (close b)) data) ! i
      = (if 1 \<le> slow_period s \<and> nat (slow_period s) \<le> Suc i
         then Num (simple_average (nat (slow_period s)) i (map close data)) else NaN)"
    if "i < length data" for i
    unfolding closes_Num using rolling_mean_Num[of i "map close data" "nat (slow_period s)"] that
    by auto
  have "filter (\<lambda>r. \<not> isnan (ma_fast r) \<and> \<not> isnan (ma_slow r)) (ma_frame s data)
      = map (ma_row_at s data) (filter ?Q [0..<length data])"
  proof (rule filter_frame)
    show "length (ma_frame s data) = length data" by simp
  next
    fix i assume i: "i < length data"
    show "(\<not> isnan (ma_fast (ma_frame s data ! i)) \<and> \<not> isnan (ma_slow (ma_frame s data ! i))) = ?Q i"
      unfolding nth_ma_frame[OF i] by (simp add: f[OF i] sl[OF i] isnan_def)
  next
    fix i assume i: "i < length data" and q: "?Q i"
    show "ma_frame s data ! i = ma_row_at s data i"
      unfolding nth_ma_frame[OF i] ma_row_at_def using q
      by (simp add: f[OF i] sl[OF i] Let_def fgt_def)
  qed
  then show ?thesis
    using assms by (simp add: ma_generate_signals_def)
qed

lemma band_frame:
  assumes "0 \<le> bb_period s"
  shows "bb_generate_signals s data =
     Inr (map (bb_row_at s data)
            (filter (\<lambda>i. 2 \<le> bb_period s \<and> nat (bb_period s) \<le> Suc i) [0..<length data]))"
proof -
  let ?Q = "\<lambda>i. 2 \<le> bb_period s \<and> nat (bb_period s) \<le> Suc i"
  let ?w = "nat (bb_period s)"
  have m: "rolling_mean ?w (map (\<lambda>b. Num (close b)) data) ! i
      = (if 1 \<le> ?w \<and> ?w \<le> Suc i
         then Num (simple_average ?w i (map close data)) else NaN)"
    if "i < length data" for i
    unfolding closes_Num using rolling_mean_Num[of i "map close data" ?w] that by simp
  have sd: "rolling_std ?w (map (\<lambda>b. Num (close b)) data) ! i
      = (if 2 \<le> ?w \<and> ?w \<le> Suc i
         then Num (sample_deviation ?w i (map close data)) else NaN)"
    if "i < length data" for i
    unfolding closes_Num using rolling_std_Num[of i "map close data" ?w] that by simp
  have "filter (\<lambda>r. \<not> isnan (ma r) \<and> \<not> isnan (std r) \<and> \<not> isnan (upper_band r)
                            \<and> \<not> isnan (lower_band r)) (bb_frame s data)
      = map (bb_row_at s data) (filter ?Q [0..<length data])"
  proof (rule filter_frame)
    show "length (bb_frame s data) = length data" by simp
  next
    fix i assume i: "i < length data"
    from nth_bb_frame[OF i, of s] obtain mm ss where
      row: "bb_frame s data ! i =
       \<lparr>date = date (data ! i), close = close (data ! i),
        signal = Some (if fge (Num (close (data ! i))) (fadd mm (fmul ss (Num (std_dev s)))) then - 1
                       else if fle (Num (close (data ! i))) (fsub mm (fmul ss (Num (std_dev s)))) then 1
                       else 0),
        ma = mm, std = ss,
        upper_band = fadd mm (fmul ss (Num (std_dev s))),
        lower_band = fsub mm (fmul ss (Num (std_dev s)))\<rparr>"
      and mm: "mm = rolling_mean ?w (map (\<lambda>b. Num (close b)) data) ! i"
      and ss: "ss = rolling_std ?w (map (\<lambda>b. Num (close b)) data) ! i"
      by blast
    show "(\<not> isnan (ma (bb_frame s data ! i)) \<and> \<not> isnan (std (bb_frame s data ! i))
          \<and> \<not> isnan (upper_band (bb_frame s data ! i))
          \<and> \<not> isnan (lower_band (bb_frame s data ! i))) = ?Q i"
      unfolding row mm ss m[OF i] sd[OF i]
      by (auto simp add: isnan_def fsub_def)
  next
    fix i assume i: "i < length data" and q: "?Q i"
    from nth_bb_frame[OF i, of s] obtain mm ss where
      row: "bb_frame s data ! i =
       \<lparr>date = date (data ! i), close = close (data ! i),
        signal = Some (if fge (Num (close (data ! i))) (fadd mm (fmul ss (Num (std_dev s)))) then - 1
                       else if fle (Num (close (data ! i))) (fsub mm (fmul ss (Num (std_dev s)))) then 1
                       else 0),
        ma = mm, std = ss,
        upper_band = fadd mm (fmul ss (Num (std_dev s))),
        lower_band = fsub mm (fmul ss (Num (std_dev s)))\<rparr>"
      and mm: "mm = rolling_mean ?w (map (\<lambda>b. Num (close b)) data) ! i"
      and ss: "ss = rolling_std ?w (map (\<lambda>b. Num (close b)) data) ! i"
      by blast
    have q': "1 \<le> ?w \<and> ?w \<le> Suc i" "2 \<le> ?w \<and> ?w \<le> Suc i"
      using q by auto
    have mv: "mm = Num (simple_average ?w i (map close data))"
      unfolding mm m[OF i] using q' by simp
    have sv: "ss = Num (sample_deviation ?w i (map close data))"
      unfolding ss sd[OF i] using q' by simp
    show "bb_frame s data ! i = bb_row_at s data i"
      unfolding row mv sv bb_row_at_def upper_band_at_def lower_band_at_def
      by (auto simp add: fsub_def fge_def fle_def feq_def)
  qed
  then show ?thesis
    using assms by (simp add: bb_generate_signals_def)
qed

subsection \<open>Exponential averages\<close>

lemma ewm_from_nth:
  assumes "i < length xs"
  shows "ewm_from a num den xs ! i =
     ((\<Sum>j\<le>i. (1 - a) ^ (i - j) * xs ! j) + (1 - a) ^ Suc i * num)
       / ((\<Sum>j\<le>i. (1 - a) ^ (i - j)) + (1 - a) ^ Suc i * den)"
  using assms
proof (induction xs arbitrary: num den i)
  case Nil
  then show ?case by simp
next
  case (Cons x xs)
  show ?case
  proof (cases i)
    case 0
    then show ?thesis by simp
  next
    case (Suc k)
    then have k: "k < length xs" using Cons.prems by simp
    have s1: "(\<Sum>j\<le>Suc k. (1 - a) ^ (Suc k - j) * (x # xs) ! j)
        = (1 - a) ^ Suc k * x + (\<Sum>j\<le>k. (1 - a) ^ (k - j) * xs ! j)"
      by (simp add: sum.atMost_Suc_shift del: sum.atMost_Suc)
    have s2: "(\<Sum>j\<le>Suc k. (1 - a) ^ (Suc k - j))
        = (1 - a) ^ Suc k + (\<Sum>j\<le>k. (1 - a) ^ (k - j))"
      by (simp add: sum.atMost_Suc_shift del: sum.atMost_Suc)
    have "ewm_from a num den (x # xs) ! Suc k
        = ewm_from a (x + (1 - a) * num) (1 + (1 - a) * den) xs ! k"
      by simp
    also have "\<dots> = ((\<Sum>j\<le>k. (1 - a) ^ (k - j) * xs ! j) + (1 - a) ^ Suc k * (x + (1 - a) * num))
       / ((\<Sum>j\<le>k. (1 - a) ^ (k - j)) + (1 - a) ^ Suc k * (1 + (1 - a) * den))"
      by (rule Cons.IH[OF k])
    also have "\<dots> = ((\<Sum>j\<le>Suc k. (1 - a) ^ (Suc k - j) * (x # xs) ! j) + (1 - a) ^ Suc (Suc k) * num)
       / ((\<Sum>j\<le>Suc k. (1 - a) ^ (Suc k - j)) + (1 - a) ^ Suc (Suc k) * den)"
      unfolding s1 s2 by (simp add: algebra_simps)
    finally show ?thesis unfolding Suc .
  qed
qed

lemma ewm_mean_nth:
  assumes "ewm_mean sp xs = Inr ys" "i < length xs"
  shows "ys ! i = exponential_average sp i xs"
proof -
  from assms(1) have ys: "ys = ewm_from (2 / (real_of_int sp + 1)) 0 0 xs"
    by (auto simp add: ewm_mean_def split: if_splits)
  show ?thesis
    unfolding ys ewm_from_nth[OF assms(2)] exponential_average_def by simp
qed

lemma ewm_mean_ok: "1 \<le> sp \<Longrightarrow> \<exists>ys. ewm_mean sp xs = Inr ys"
  by (simp add: ewm_mean_def)

lemma macd_frame_rows:
  assumes "1 \<le> macd_fast_period s" "1 \<le> macd_slow_period s" "1 \<le> signal_period s"
  shows "macd_generate_signals s data = Inr (map (macd_row_at s data) [0..<length data])"
proof -
  obtain exp1 where e1: "ewm_mean (macd_fast_period s) (map close data) = Inr exp1"
    using ewm_mean_ok[OF assms(1)] by blast
  obtain exp2 where e2: "ewm_mean (macd_slow_period s) (map close data) = Inr exp2"
    using ewm_mean_ok[OF assms(2)] by blast
  let ?ml = "map2 (-) exp1 exp2"
  obtain sl where e3: "ewm_mean (signal_period s) ?ml = Inr sl"
    using ewm_mean_ok[OF assms(3)] by blast
  have l1: "length exp1 = length data" "length exp2 = length data"
    using ewm_mean_length[OF e1] ewm_mean_length[OF e2] by simp_all
  have lm: "length ?ml = length data" using l1 by simp
  have ls: "length sl = length data" using ewm_mean_length[OF e3] lm by simp
  have mld: "exp1 ! i - exp2 ! i = macd_line_at s data i" if "i < length data" for i
    using that ewm_mean_nth[OF e1, of i] ewm_mean_nth[OF e2, of i]
    by (simp add: macd_line_at_def)
  have mli: "?ml ! i = macd_line_at s data i" if "i < length data" for i
    using that l1 mld by simp
  have ml: "?ml = map (macd_line_at s data) [0..<length data]"
    by (rule nth_equalityI) (simp_all add: l1 mld del: upt_Suc)
  have sli: "sl ! i = signal_line_at s data i" if "i < length data" for i
    using that lm ewm_mean_nth[OF e3, of i] unfolding signal_line_at_def ml[symmetric]
    by simp
  have "macd_frame data ?ml sl = map (macd_row_at s data) [0..<length data]"
  proof (rule nth_equalityI)
    show "length (macd_frame data ?ml sl) = length (map (macd_row_at s data) [0..<length data])"
      by simp
  next
    fix i assume "i < length (macd_frame data ?ml sl)"
    then have i: "i < length data" by simp
    have i1: "i - 1 < length data" using i by simp
    have sc: "macd_signal_column (map Num ?ml) (map Num sl) ! i =
     (if 0 < i \<and> flt (Num (?ml ! i)) (Num (sl ! i))
           \<and> fge (Num (?ml ! (i - 1))) (Num (sl ! (i - 1))) then - 1
      else if 0 < i \<and> fgt (Num (?ml ! i)) (Num (sl ! i))
           \<and> fle (Num (?ml ! (i - 1))) (Num (sl ! (i - 1))) then 1
      else 0)"
      using lm ls i i1 by (subst nth_macd_signal_column) (simp_all del: flt.simps)
    show "macd_frame data ?ml sl ! i = map (macd_row_at s data) [0..<length data] ! i"
      unfolding nth_macd_frame[OF lm ls i] sc mli[OF i] sli[OF i] mli[OF i1] sli[OF i1]
      using i by (auto simp add: macd_row_at_def fgt_def fge_def fle_def feq_def simp del: upt_Suc)
  qed
  then show ?thesis
    by (simp add: macd_generate_signals_def e1 e2 e3)
qed

subsection \<open>The columns of the relative strength index\<close>

lemma simple_average_nonneg:
  assumes "\<forall>x\<in>set xs. 0 \<le> x" "i < length xs"
  shows "0 \<le> simple_average w i xs"
proof -
  have "0 \<le> (\<Sum>j = Suc i - w..<Suc i. xs ! j)"
  proof (rule sum_nonneg)
    fix j assume "j \<in> {Suc i - w..<Suc i}"
    then have "j < length xs" using assms(2) by auto
    then show "0 \<le> xs ! j" using assms(1) by simp
  qed
  then show ?thesis by (simp add: simple_average_def)
qed

lemma length_diff [simp]: "length (diff xs) = length xs"
  by (simp add: diff_def)

lemma nth_diff_Num:
  assumes "i < length ps"
  shows "diff (map Num ps) ! i = (if i = 0 then NaN else Num (ps ! i - ps ! (i - 1)))"
  using assms by (simp add: diff_def nth_shift1 fsub_def)

lemma gain_column_Num: "gain_column (diff (map Num ps)) = map Num (gains ps)"
  by (rule nth_equalityI)
     (auto simp add: gain_column_def gains_def nth_diff_Num fgt_def max_def)

lemma loss_column_Num: "loss_column (diff (map Num ps)) = map Num (losses ps)"
  by (rule nth_equalityI)
     (auto simp add: loss_column_def losses_def nth_diff_Num max_def)

lemma gains_nonneg: "\<forall>x\<in>set (gains ps). 0 \<le> x"
  by (auto simp add: gains_def)

lemma losses_nonneg: "\<forall>x\<in>set (losses ps). 0 \<le> x"
  by (auto simp add: losses_def)

lemma rsi_of_averages:
  assumes "0 \<le> g" "0 \<le> l"
  shows "fsub (Num 100) (fdiv (Num 100) (fadd (Num 1) (fdiv (Num g) (Num l)))) = rsi_value g l"
proof (cases "l = 0")
  case True
  then show ?thesis
    using assms by (auto simp add: rsi_value_def signed_inf_def fsub_def)
next
  case False
  then have "0 < l" using assms by simp
  then have "0 \<le> g / l" using assms by simp
  then have "1 + g / l \<noteq> 0" by linarith
  then show ?thesis
    using False by (simp add: rsi_value_def fsub_def)
qed

lemma calculate_rsi_length:
  "calculate_rsi prices period = Inr r \<Longrightarrow> length r = length prices"
  by (auto simp add: calculate_rsi_def Let_def gain_column_def loss_column_def split: if_splits)

lemma calculate_rsi_nth:
  assumes "calculate_rsi (map Num ps) period = Inr r" "i < length ps"
  shows "r ! i =
     (if 1 \<le> period \<and> nat period \<le> Suc i
      then rsi_value (simple_average (nat period) i (gains ps))
                     (simple_average (nat period) i (losses ps))
      else NaN)"
proof -
  have lg: "length (gains ps) = length ps" "length (losses ps) = length ps"
    by (simp_all add: gains_def losses_def)
  have r: "r = map (\<lambda>x. fsub (Num 100) (fdiv (Num 100) (fadd (Num 1) x)))
             (map2 fdiv (rolling_mean (nat period) (map Num (gains ps)))
                        (rolling_mean (nat period) (map Num (losses ps))))"
    using assms(1)
    by (auto simp add: calculate_rsi_def Let_def gain_column_Num loss_column_Num split: if_splits)
  have i: "i < length (gains ps)" "i < length (losses ps)"
    using assms(2) lg by simp_all
  show ?thesis
  proof (cases "1 \<le> period \<and> nat period \<le> Suc i")
    case True
    then have w: "1 \<le> nat period \<and> nat period \<le> Suc i" by auto
    have "r ! i = fsub (Num 100) (fdiv (Num 100) (fadd (Num 1)
            (fdiv (Num (simple_average (nat period) i (gains ps)))
                  (Num (simple_average (nat period) i (losses ps))))))"
      unfolding r using i lg w
      by (simp add: rolling_mean_Num[OF i(1)] rolling_mean_Num[OF i(2)] del: fdiv.simps fadd.simps)
    also have "\<dots> = rsi_value (simple_average (nat period) i (gains ps))
                     (simple_average (nat period) i (losses ps))"
      by (rule rsi_of_averages)
         (simp_all add: simple_average_nonneg gains_nonneg losses_nonneg i)
    finally show ?thesis using True by simp
  next
    case False
    then have w: "\<not> (1 \<le> nat period \<and> nat period \<le> Suc i)" by auto
    have g: "rolling_mean (nat period) (map Num (gains ps)) ! i = NaN"
      using rolling_mean_Num[OF i(1), of "nat period"] w by auto
    have l: "rolling_mean (nat period) (map Num (losses ps)) ! i = NaN"
      using rolling_mean_Num[OF i(2), of "nat period"] w by auto
    have "r ! i = NaN"
      unfolding r using i lg by (simp add: g l fsub_def)
    then show ?thesis using False by auto
  qed
qed

lemma calculate_rsi_ok: "0 \<le> period \<Longrightarrow> \<exists>r. calculate_rsi prices period = Inr r"
  by (simp add: calculate_rsi_def Let_def)

lemma rsi_column:
  assumes "0 \<le> period"
  shows "calculate_rsi (map Num ps) period =
     Inr (map (\<lambda>i. if 1 \<le> period \<and> nat period \<le> Suc i
                    then rsi_value (simple_average (nat period) i (gains ps))
                                   (simple_average (nat period) i (losses ps))
                    else NaN) [0..<length ps])"
proof -
  obtain r where r: "calculate_rsi (map Num ps) period = Inr r"
    using calculate_rsi_ok[OF assms] by blast
  have lr: "length r = length ps" using calculate_rsi_length[OF r] by simp
  have "r = map (\<lambda>i. if 1 \<le> period \<and> nat period \<le> Suc i
                    then rsi_value (simple_average (nat period) i (gains ps))
                                   (simple_average (nat period) i (losses ps))
                    else NaN) [0..<length ps]"
    by (rule nth_equalityI) (simp_all add: lr calculate_rsi_nth[OF r] del: upt_Suc)
  then show ?thesis using r by simp
qed

lemma nth_rsi_signal_column:
  assumes "i < length r"
  shows "rsi_signal_column s r ! i =
     (if fgt (r ! i) (Num (real_of_int (overbought s))) then - 1
      else if flt (r ! i) (Num (real_of_int (oversold s))) then 1 else 0)"
  using assms by (simp add: rsi_signal_column_def nth_assign_where)

lemma rsi_frame_rows:
  assumes "0 \<le> rsi_period s"
  shows "rsi_generate_signals s data =
     Inr (map (rsi_row_at s data)
            (filter (\<lambda>i. 1 \<le> rsi_period s \<and> nat (rsi_period s) \<le> Suc i
                        \<and> \<not> (average_gain s data i = 0 \<and> average_loss s data i = 0))
               [0..<length data]))"
proof -
  let ?Q = "\<lambda>i. 1 \<le> rsi_period s \<and> nat (rsi_period s) \<le> Suc i
                        \<and> \<not> (average_gain s data i = 0 \<and> average_loss s data i = 0)"
  obtain r where r: "calculate_rsi (map (\<lambda>b. Num (close b)) data) (rsi_period s) = Inr r"
    using calculate_rsi_ok[OF assms] by blast
  have lr: "length r = length data" using calculate_rsi_length[OF r] by simp
  have ri: "r ! i = (if 1 \<le> rsi_period s \<and> nat (rsi_period s) \<le> Suc i
      then rsi_value (average_gain s data i) (average_loss s data i) else NaN)"
    if "i < length data" for i
    using calculate_rsi_nth[of "map close data" "rsi_period s" r i] r that
    unfolding closes_Num average_gain_def average_loss_def by simp
  have row: "rsi_frame s data r ! i =
      \<lparr>date = date (data ! i), close = close (data ! i),
       signal = Some (if fgt (r ! i) (Num (real_of_int (overbought s))) then - 1
                      else if flt (r ! i) (Num (real_of_int (oversold s))) then 1 else 0),
       rsi = r ! i\<rparr>"
    if "i < length data" for i
    using that lr by (simp add: rsi_frame_def nth_rsi_signal_column)
  have "filter (\<lambda>x. \<not> isnan (rsi x)) (rsi_frame s data r)
      = map (rsi_row_at s data) (filter ?Q [0..<length data])"
  proof (rule filter_frame)
    show "length (rsi_frame s data r) = length data" by (simp add: rsi_frame_def)
  next
    fix i assume i: "i < length data"
    show "(\<not> isnan (rsi (rsi_frame s data r ! i))) = ?Q i"
      unfolding row[OF i] by (auto simp add: ri[OF i] isnan_def rsi_value_def)
  next
    fix i assume i: "i < length data" and q: "?Q i"
    have v: "r ! i = Num (rsi_number (average_gain s data i) (average_loss s data i))"
      using q by (auto simp add: ri[OF i] rsi_value_def rsi_number_def)
    show "rsi_frame s data r ! i = rsi_row_at s data i"
      unfolding row[OF i] v rsi_row_at_def by (simp add: fgt_def)
  qed
  then show ?thesis
    by (simp add: rsi_generate_signals_def r)
qed

subsection \<open>The strategies on the concrete inputs\<close>

lemma ma_frame_columns:
  assumes "map (\<lambda>b. Num (close b)) data = closes"
    and "rolling_mean (nat (fast_period s)) closes = fast"
    and "rolling_mean (nat (slow_period s)) closes = slow"
    and "ma_signal_column fast slow = sig"
  shows "ma_frame s data =
     map (\<lambda>i. \<lparr>date = date (data ! i), close = close (data ! i), signal = Some (sig ! i),
                ma_fast = fast ! i, ma_slow = slow ! i\<rparr>) [0..<length data]"
  using assms by (simp add: ma_frame_def Let_def)

lemma bb_frame_columns:
  assumes "map (\<lambda>b. Num (close b)) data = closes"
    and "rolling_mean (nat (bb_period s)) closes = m"
    and "rolling_std (nat (bb_period s)) closes = sd"
    and "map2 fadd m (map (\<lambda>x. fmul x (Num (std_dev s))) sd) = upper"
    and "map2 fsub m (map (\<lambda>x. fmul x (Num (std_dev s))) sd) = lower"
    and "bb_signal_column closes upper lower = sig"
  shows "bb_frame s data =
     map (\<lambda>i. \<lparr>date = date (data ! i), close = close (data ! i), signal = Some (sig ! i),
                ma = m ! i, std = sd ! i, upper_band = upper ! i, lower_band = lower ! i\<rparr>)
       [0..<length data]"
  using assms by (simp add: bb_frame_def Let_def)

lemma crossover_bars:
  "bars_of [10, 10, 10, 12, 14, 16, 8, 8, 8] =
    [\<lparr>date = Timestamp 2024 1 1, close = 10\<rparr>, \<lparr>date = Timestamp 2024 1 2, close = 10\<rparr>,
     \<lparr>date = Timestamp 2024 1 3, close = 10\<rparr>, \<lparr>date = Timestamp 2024 1 4, close = 12\<rparr>,
     \<lparr>date = Timestamp 2024 1 5, close = 14\<rparr>, \<lparr>date = Timestamp 2024 1 6, close = 16\<rparr>,
     \<lparr>date = Timestamp 2024 1 7, close = 8\<rparr>, \<lparr>date = Timestamp 2024 1 8, close = 8\<rparr>,
     \<lparr>date = Timestamp 2024 1 9, close = 8\<rparr>]"
  by (simp add: bars_of_def)

lemma crossover_fast:
  "rolling_mean 2 (map Num [10, 10, 10, 12, 14, 16, 8, 8, 8])
     = [NaN, Num 10, Num 10, Num 11, Num 13, Num 15, Num 12, Num 8, Num 8]"
  by (simp add: rolling_mean_def window_def series_mean_def series_sum_def upt_rec)

lemma crossover_slow:
  "rolling_mean 3 (map Num [10, 10, 10, 12, 14, 16, 8, 8, 8])
     = [NaN, NaN, Num 10, Num (32 / 3), Num 12, Num 14, Num (38 / 3), Num (32 / 3), Num 8]"
  by (simp add: rolling_mean_def window_def series_mean_def series_sum_def upt_rec)

lemma crossover_signal:
  "ma_signal_column [NaN, Num 10, Num 10, Num 11, Num 13, Num 15, Num 12, Num 8, Num 8]
      [NaN, NaN, Num 10, Num (32 / 3), Num 12, Num 14, Num (38 / 3), Num (32 / 3), Num 8]
     = [0, 0, 0, 1, 1, 1, - 1, - 1, 0]"
  by (simp add: ma_signal_column_def assign_where_def fgt_def)

lemma crossover_run:
  "ma_generate_signals \<lparr>fast_period = 2, slow_period = 3\<rparr> (bars_of [10, 10, 10, 12, 14, 16, 8, 8, 8])
     = Inr crossover_example"
proof -
  let ?s = "\<lparr>fast_period = 2, slow_period = 3\<rparr>"
  let ?data = "bars_of [10, 10, 10, 12, 14, 16, 8, 8, 8]"
  have c: "map (\<lambda>b. Num (close b)) ?data = map Num [10, 10, 10, 12, 14, 16, 8, 8, 8]"
    by (simp add: crossover_bars)
  have f: "rolling_mean (nat (fast_period ?s)) (map Num [10, 10, 10, 12, 14, 16, 8, 8, 8])
     = [NaN, Num 10, Num 10, Num 11, Num 13, Num 15, Num 12, Num 8, Num 8]"
    using crossover_fast by simp
  have sl: "rolling_mean (nat (slow_period ?s)) (map Num [10, 10, 10, 12, 14, 16, 8, 8, 8])
     = [NaN, NaN, Num 10, Num (32 / 3), Num 12, Num 14, Num (38 / 3), Num (32 / 3), Num 8]"
    using crossover_slow by simp
  show ?thesis
    unfolding ma_generate_signals_def ma_frame_columns[OF c f sl crossover_signal]
    by (simp add: crossover_bars upt_rec isnan_def crossover_example_def)
qed

lemma bollinger_bars:
  "bars_of [1, 2, 3, 1, 2] =
    [\<lparr>date = Timestamp 2024 1 1, close = 1\<rparr>, \<lparr>date = Timestamp 2024 1 2, close = 2\<rparr>,
     \<lparr>date = Timestamp 2024 1 3, close = 3\<rparr>, \<lparr>date = Timestamp 2024 1 4, close = 1\<rparr>,
     \<lparr>date = Timestamp 2024 1 5, close = 2\<rparr>]"
  by (simp add: bars_of_def)

lemma bollinger_mean:
  "rolling_mean 3 (map Num [1, 2, 3, 1, 2]) = [NaN, NaN, Num 2, Num 2, Num 2]"
  by (simp add: rolling_mean_def window_def series_mean_def series_sum_def upt_rec)

lemma bollinger_std:
  "rolling_std 3 (map Num [1, 2, 3, 1, 2]) = [NaN, NaN, Num 1, Num 1, Num 1]"
  by (simp add: rolling_std_def window_def series_mean_def series_std_def series_sum_def upt_rec
      fsub_def)

lemma bollinger_signal:
  "bb_signal_column (map Num [1, 2, 3, 1, 2]) [NaN, NaN, Num 3, Num 3, Num 3]
      [NaN, NaN, Num 1, Num 1, Num 1] = [0, 0, - 1, 1, 0]"
  by (simp add: bb_signal_column_def assign_where_def fge_def fle_def feq_def)

lemma bollinger_run:
  "bb_generate_signals \<lparr>bb_period = 3, std_dev = 1\<rparr> (bars_of [1, 2, 3, 1, 2]) = Inr bollinger_example"
proof -
  let ?s = "\<lparr>bb_period = 3, std_dev = 1\<rparr>"
  let ?data = "bars_of [1, 2, 3, 1, 2]"
  have c: "map (\<lambda>b. Num (close b)) ?data = map Num [1, 2, 3, 1, 2]"
    by (simp add: bollinger_bars)
  have m: "rolling_mean (nat (bb_period ?s)) (map Num [1, 2, 3, 1, 2])
      = [NaN, NaN, Num 2, Num 2, Num 2]"
    using bollinger_mean by simp
  have sd: "rolling_std (nat (bb_period ?s)) (map Num [1, 2, 3, 1, 2])
      = [NaN, NaN, Num 1, Num 1, Num 1]"
    using bollinger_std by simp
  have u: "map2 fadd [NaN, NaN, Num 2, Num 2, Num 2]
       (map (\<lambda>x. fmul x (Num (std_dev ?s))) [NaN, NaN, Num 1, Num 1, Num 1])
      = [NaN, NaN, Num 3, Num 3, Num 3]"
    by simp
  have l: "map2 fsub [NaN, NaN, Num 2, Num 2, Num 2]
       (map (\<lambda>x. fmul x (Num (std_dev ?s))) [NaN, NaN, Num 1, Num 1, Num 1])
      = [NaN, NaN, Num 1, Num 1, Num 1]"
    by (simp add: fsub_def)
  show ?thesis
    unfolding bb_generate_signals_def bb_frame_columns[OF c m sd u l bollinger_signal]
    by (simp add: bollinger_bars upt_rec isnan_def bollinger_example_def)
qed

lemma flat_window_run:
  "bb_generate_signals \<lparr>bb_period = 2, std_dev = 2\<rparr> (bars_of [10, 10]) = Inr flat_window_example"
  apply (simp add: bars_of_def bb_generate_signals_def bb_frame_def Let_def)
  apply (simp add: rolling_mean_def rolling_std_def window_def upt_rec)
  apply (simp add: series_mean_def series_std_def series_sum_def fsub_def)
  apply (simp add: bb_signal_column_def assign_where_def fge_def fle_def feq_def isnan_def
      flat_window_example_def)
  done

lemma macd_run:
  "macd_generate_signals \<lparr>macd_fast_period = 1, macd_slow_period = 3, signal_period = 3\<rparr>
     (bars_of [10, 10, 12, 9]) = Inr macd_example"
  apply (simp add: bars_of_def macd_generate_signals_def ewm_mean_def)
  apply (simp add: macd_frame_def Let_def upt_rec)
  apply (simp add: macd_signal_column_def assign_where_def shift1_def fgt_def fge_def fle_def feq_def
      macd_example_def)
  done
lemma rsi_bars:
  "bars_of [1, 2, 4, 3, 1] =
    [\<lparr>date = Timestamp 2024 1 1, close = 1\<rparr>, \<lparr>date = Timestamp 2024 1 2, close = 2\<rparr>,
     \<lparr>date = Timestamp 2024 1 3, close = 4\<rparr>, \<lparr>date = Timestamp 2024 1 4, close = 3\<rparr>,
     \<lparr>date = Timestamp 2024 1 5, close = 1\<rparr>]"
  by (simp add: bars_of_def)

lemma rsi_column_run:
  "calculate_rsi [Num 1, Num 2, Num 4, Num 3, Num 1] 2
     = Inr [NaN, Num 100, Num 100, Num (200 / 3), Num 0]"
proof -
  have d: "diff [Num 1, Num 2, Num 4, Num 3, Num 1] = [NaN, Num 1, Num 2, Num (- 1), Num (- 2)]"
    by (simp add: diff_def shift1_def fsub_def)
  have g: "gain_column [NaN, Num 1, Num 2, Num (- 1), Num (- 2)]
      = [Num 0, Num 1, Num 2, Num 0, Num 0]"
    by (simp add: gain_column_def fgt_def)
  have l: "loss_column [NaN, Num 1, Num 2, Num (- 1), Num (- 2)]
      = [Num 0, Num 0, Num 0, Num 1, Num 2]"
    by (simp add: loss_column_def)
  have rg: "rolling_mean 2 [Num 0, Num 1, Num 2, Num 0, Num 0]
      = [NaN, Num (1 / 2), Num (3 / 2), Num 1, Num 0]"
    by (simp add: rolling_mean_def window_def series_mean_def series_sum_def upt_rec)
  have rl: "rolling_mean 2 [Num 0, Num 0, Num 0, Num 1, Num 2]
      = [NaN, Num 0, Num 0, Num (1 / 2), Num (3 / 2)]"
    by (simp add: rolling_mean_def window_def series_mean_def series_sum_def upt_rec)
  show ?thesis
    unfolding calculate_rsi_def Let_def d g l
    by (simp add: rg rl signed_inf_def fsub_def)
qed

lemma rsi_signal_run:
  "rsi_signal_column \<lparr>rsi_period = 2, oversold = 30, overbought = 70\<rparr>
      [NaN, Num 100, Num 100, Num (200 / 3), Num 0] = [0, - 1, - 1, 0, 1]"
  by (simp add: rsi_signal_column_def assign_where_def fgt_def)

lemma rsi_run:
  "rsi_generate_signals \<lparr>rsi_period = 2, oversold = 30, overbought = 70\<rparr> (bars_of [1, 2, 4, 3, 1])
     = Inr rsi_example"
proof -
  have c: "map (\<lambda>b. Num (close b)) (bars_of [1, 2, 4, 3, 1])
      = [Num 1, Num 2, Num 4, Num 3, Num 1]"
    by (simp add: rsi_bars)
  show ?thesis
    unfolding rsi_generate_signals_def c
    by (simp add: rsi_column_run rsi_frame_def rsi_signal_run)
       (simp add: rsi_bars upt_rec isnan_def rsi_example_def)
qed

lemma wilder_run: "wilder_rsi 2 [1, 2, 4, 3, 1] 3 = Num 60"
proof -
  have g: "gains [1, 2, 4, 3, 1] = [0, 1, 2, 0, 0]"
    by (simp add: gains_def upt_rec)
  have l: "losses [1, 2, 4, 3, 1] = [0, 0, 0, 1, 2]"
    by (simp add: losses_def upt_rec)
  show ?thesis
    by (simp add: wilder_rsi_def g l wilder_average_def rsi_value_def)
qed

lemma rsi_example_gains: "gains [1, 2, 4, 3, 1] = [0, 1, 2, 0, 0]"
  by (simp add: gains_def upt_rec)

lemma rsi_example_losses: "losses [1, 2, 4, 3, 1] = [0, 0, 0, 1, 2]"
  by (simp add: losses_def upt_rec)

lemma simple_average_two:
  "simple_average 2 (Suc i) xs = (xs ! i + xs ! Suc i) / 2"
  by (simp add: simple_average_def numeral_2_eq_2)

lemma rsi_example_kept:
  "filter (\<lambda>i. 1 \<le> rsi_period \<lparr>rsi_period = 2, oversold = 30, overbought = 70\<rparr>
              \<and> nat (rsi_period \<lparr>rsi_period = 2, oversold = 30, overbought = 70\<rparr>) \<le> Suc i
              \<and> \<not> (average_gain \<lparr>rsi_period = 2, oversold = 30, overbought = 70\<rparr>
                       (bars_of [1, 2, 4, 3, 1]) i = 0
                   \<and> average_loss \<lparr>rsi_period = 2, oversold = 30, overbought = 70\<rparr>
                       (bars_of [1, 2, 4, 3, 1]) i = 0))
      [0..<length (bars_of [1, 2, 4, 3, 1])] = [1, 2, 3, 4]"
proof -
  have c: "map close (bars_of [1, 2, 4, 3, 1]) = [1, 2, 4, 3, 1]"
    by (simp add: rsi_bars)
  have u: "[0..<length (bars_of [1, 2, 4, 3, 1])] = [0, Suc 0, Suc (Suc 0), Suc (Suc (Suc 0)),
      Suc (Suc (Suc (Suc 0)))]"
    by (simp add: rsi_bars upt_rec)
  show ?thesis
    unfolding u average_gain_def average_loss_def c rsi_example_gains rsi_example_losses
    by (simp add: simple_average_two)
qed

subsection \<open>Crossover, bands and MACD\<close>

text \<open>
  Claim C5, amended: for windows that are not negative, the crossover returns exactly the
  bars from which both rolling windows are full, each with the simple means of the last
  \<open>fast_period\<close> and \<open>slow_period\<close> closes and the signal +1 where the fast mean exceeds the
  slow one, -1 where it is below, 0 where they are equal, on every such bar. The band
  strategy returns exactly the bars from which its window of at least two closes is full,
  each with the mean, the sample deviation and the bands at \<open>std_dev\<close> deviations above
  and below the mean of the last \<open>bb_period\<close> closes, and the signal -1 where the close is
  at or above the upper band,
  +1 where it is at or below the lower band and not at or above the upper one, 0
  otherwise, on every such bar. For spans of at least 1, MACD returns every bar, each with
  the difference of the two exponential averages of the closes, the exponential average of
  that line, and the signal +1 exactly where the line is above the signal line and was at
  or below it on the bar before, -1 exactly on the mirror-image cross, 0 otherwise.
\<close>

theorem strategy_signal_rules:
  "(0 \<le> fast_period cs \<and> 0 \<le> slow_period cs \<longrightarrow>
      ma_generate_signals cs data =
        Inr (map (ma_row_at cs data)
               (filter (\<lambda>i. 1 \<le> fast_period cs \<and> nat (fast_period cs) \<le> Suc i
                           \<and> 1 \<le> slow_period cs \<and> nat (slow_period cs) \<le> Suc i)
                  [0..<length data])))
   \<and> (0 \<le> bb_period bs \<longrightarrow>
      bb_generate_signals bs data =
        Inr (map (bb_row_at bs data)
               (filter (\<lambda>i. 2 \<le> bb_period bs \<and> nat (bb_period bs) \<le> Suc i) [0..<length data])))
   \<and> (1 \<le> macd_fast_period ms \<and> 1 \<le> macd_slow_period ms \<and> 1 \<le> signal_period ms \<longrightarrow>
      macd_generate_signals ms data = Inr (map (macd_row_at ms data) [0..<length data]))"
proof (intro conjI impI)
  assume "0 \<le> fast_period cs \<and> 0 \<le> slow_period cs"
  then show "ma_generate_signals cs data =
        Inr (map (ma_row_at cs data)
               (filter (\<lambda>i. 1 \<le> fast_period cs \<and> nat (fast_period cs) \<le> Suc i
                           \<and> 1 \<le> slow_period cs \<and> nat (slow_period cs) \<le> Suc i)
                  [0..<length data]))"
    using crossover_frame[of cs data] by simp
next
  assume "0 \<le> bb_period bs"
  then show "bb_generate_signals bs data =
        Inr (map (bb_row_at bs data)
               (filter (\<lambda>i. 2 \<le> bb_period bs \<and> nat (bb_period bs) \<le> Suc i) [0..<length data]))"
    by (rule band_frame)
next
  assume "1 \<le> macd_fast_period ms \<and> 1 \<le> macd_slow_period ms \<and> 1 \<le> signal_period ms"
  then show "macd_generate_signals ms data = Inr (map (macd_row_at ms data) [0..<length data])"
    using macd_frame_rows[of ms data] by simp
qed

theorem strategy_signal_rules_witness:
  "ma_generate_signals \<lparr>fast_period = 2, slow_period = 3\<rparr> (bars_of [10, 10, 10, 12, 14, 16, 8, 8, 8])
      = Inr crossover_example
   \<and> map (ma_row_at \<lparr>fast_period = 2, slow_period = 3\<rparr> (bars_of [10, 10, 10, 12, 14, 16, 8, 8, 8]))
       [2, 3, 4, 5, 6, 7, 8] = crossover_example
   \<and> map signal crossover_example = [Some 0, Some 1, Some 1, Some 1, Some (- 1), Some (- 1), Some 0]
   \<and> bb_generate_signals \<lparr>bb_period = 3, std_dev = 1\<rparr> (bars_of [1, 2, 3, 1, 2]) = Inr bollinger_example
   \<and> map (bb_row_at \<lparr>bb_period = 3, std_dev = 1\<rparr> (bars_of [1, 2, 3, 1, 2])) [2, 3, 4]
       = bollinger_example
   \<and> map signal bollinger_example = [Some (- 1), Some 1, Some 0]
   \<and> macd_generate_signals \<lparr>macd_fast_period = 1, macd_slow_period = 3, signal_period = 3\<rparr>
        (bars_of [10, 10, 12, 9]) = Inr macd_example
   \<and> map (macd_row_at \<lparr>macd_fast_period = 1, macd_slow_period = 3, signal_period = 3\<rparr>
             (bars_of [10, 10, 12, 9])) [0, 1, 2, 3] = macd_example
   \<and> map signal macd_example = [Some 0, Some 0, Some 1, Some (- 1)]"
proof -
  let ?cs = "\<lparr>fast_period = 2, slow_period = 3\<rparr>"
  let ?cd = "bars_of [10, 10, 10, 12, 14, 16, 8, 8, 8]"
  let ?bs = "\<lparr>bb_period = 3, std_dev = 1\<rparr>"
  let ?bd = "bars_of [1, 2, 3, 1, 2]"
  let ?ms = "\<lparr>macd_fast_period = 1, macd_slow_period = 3, signal_period = 3\<rparr>"
  let ?md = "bars_of [10, 10, 12, 9]"
  have ch: "0 \<le> fast_period ?cs \<and> 0 \<le> slow_period ?cs" by simp
  have ce: "ma_generate_signals ?cs ?cd =
        Inr (map (ma_row_at ?cs ?cd)
               (filter (\<lambda>i. 1 \<le> fast_period ?cs \<and> nat (fast_period ?cs) \<le> Suc i
                           \<and> 1 \<le> slow_period ?cs \<and> nat (slow_period ?cs) \<le> Suc i)
                  [0..<length ?cd]))"
    using strategy_signal_rules[where cs = ?cs and data = ?cd, THEN conjunct1] ch by (rule mp)
  have cf: "filter (\<lambda>i. 1 \<le> fast_period ?cs \<and> nat (fast_period ?cs) \<le> Suc i
                           \<and> 1 \<le> slow_period ?cs \<and> nat (slow_period ?cs) \<le> Suc i)
                  [0..<length ?cd] = [2, 3, 4, 5, 6, 7, 8]"
    by (simp add: crossover_bars upt_rec)
  have c: "map (ma_row_at ?cs ?cd) [2, 3, 4, 5, 6, 7, 8] = crossover_example"
    using ce crossover_run unfolding cf by simp
  have bh: "0 \<le> bb_period ?bs" by simp
  have be: "bb_generate_signals ?bs ?bd =
        Inr (map (bb_row_at ?bs ?bd)
               (filter (\<lambda>i. 2 \<le> bb_period ?bs \<and> nat (bb_period ?bs) \<le> Suc i) [0..<length ?bd]))"
    using strategy_signal_rules[where bs = ?bs and data = ?bd, THEN conjunct2, THEN conjunct1] bh
    by (rule mp)
  have bf: "filter (\<lambda>i. 2 \<le> bb_period ?bs \<and> nat (bb_period ?bs) \<le> Suc i) [0..<length ?bd]
      = [2, 3, 4]"
    by (simp add: bollinger_bars upt_rec)
  have b: "map (bb_row_at ?bs ?bd) [2, 3, 4] = bollinger_example"
    using be bollinger_run unfolding bf by simp
  have mh: "1 \<le> macd_fast_period ?ms \<and> 1 \<le> macd_slow_period ?ms \<and> 1 \<le> signal_period ?ms"
    by simp
  have me: "macd_generate_signals ?ms ?md = Inr (map (macd_row_at ?ms ?md) [0..<length ?md])"
    using strategy_signal_rules[where ms = ?ms and data = ?md, THEN conjunct2, THEN conjunct2] mh
    by (rule mp)
  have mf: "[0..<length ?md] = [0, 1, 2, 3]"
    by (simp add: bars_of_def upt_rec)
  have m: "map (macd_row_at ?ms ?md) [0, 1, 2, 3] = macd_example"
    using me macd_run unfolding mf by simp
  have sm: "map signal crossover_example = [Some 0, Some 1, Some 1, Some 1, Some (- 1), Some (- 1), Some 0]"
    "map signal bollinger_example = [Some (- 1), Some 1, Some 0]"
    "map signal macd_example = [Some 0, Some 0, Some 1, Some (- 1)]"
    by (simp_all add: crossover_example_def bollinger_example_def macd_example_def)
  show ?thesis
    using c b m sm crossover_run bollinger_run macd_run by (intro conjI)
qed

text \<open>
  The claim as stated fails for the band strategy where the bands coincide: on two equal
  closes with period 2 the deviation is 0, both bands equal the close, the close is at or
  below the lower band, and the signal is -1, because the sell rule is written last.
\<close>

theorem bollinger_flat_window_sells:
  "bb_generate_signals \<lparr>bb_period = 2, std_dev = 2\<rparr> (bars_of [10, 10]) = Inr flat_window_example
   \<and> map close flat_window_example = [10]
   \<and> map lower_band flat_window_example = [Num 10]
   \<and> fle (Num 10) (Num 10)
   \<and> map signal flat_window_example = [Some (- 1)]"
  by (simp add: flat_window_run) (simp add: flat_window_example_def fle_def feq_def)

subsection \<open>The relative strength index\<close>

text \<open>
  Claim C6, amended: for a period that is not negative, the RSI column is, from the bar at
  which the window of \<open>period\<close> changes is full, \<open>100 - 100 / (1 + RS)\<close> where \<open>RS\<close> is the
  ratio of the simple mean of the gains to the simple mean of the losses over the last
  \<open>period\<close> bars (the first bar counting as a change of 0; the index is 100 when only the
  losses' mean is 0 and undefined when both are), and undefined before that bar. The
  strategy returns exactly the bars whose index is defined, each with that index and the
  signal -1 where the index is strictly above the overbought threshold, +1 where it is
  strictly below the oversold threshold and not above the overbought one, 0 otherwise.
\<close>

theorem rsi_simple_average_rule:
  "(0 \<le> period \<longrightarrow>
      calculate_rsi (map Num ps) period =
        Inr (map (\<lambda>i. if 1 \<le> period \<and> nat period \<le> Suc i
                       then rsi_value (simple_average (nat period) i (gains ps))
                                      (simple_average (nat period) i (losses ps))
                       else NaN) [0..<length ps]))
   \<and> (0 \<le> rsi_period s \<longrightarrow>
      rsi_generate_signals s data =
        Inr (map (rsi_row_at s data)
               (filter (\<lambda>i. 1 \<le> rsi_period s \<and> nat (rsi_period s) \<le> Suc i
                           \<and> \<not> (average_gain s data i = 0 \<and> average_loss s data i = 0))
                  [0..<length data])))"
proof (intro conjI impI)
  assume "0 \<le> period"
  then show "calculate_rsi (map Num ps) period =
        Inr (map (\<lambda>i. if 1 \<le> period \<and> nat period \<le> Suc i
                       then rsi_value (simple_average (nat period) i (gains ps))
                                      (simple_average (nat period) i (losses ps))
                       else NaN) [0..<length ps])"
    by (rule rsi_column)
next
  assume "0 \<le> rsi_period s"
  then show "rsi_generate_signals s data =
        Inr (map (rsi_row_at s data)
               (filter (\<lambda>i. 1 \<le> rsi_period s \<and> nat (rsi_period s) \<le> Suc i
                           \<and> \<not> (average_gain s data i = 0 \<and> average_loss s data i = 0))
                  [0..<length data]))"
    by (rule rsi_frame_rows)
qed

theorem rsi_simple_average_rule_witness:
  "calculate_rsi [Num 1, Num 2, Num 4, Num 3, Num 1] 2
       = Inr [NaN, Num 100, Num 100, Num (200 / 3), Num 0]
   \<and> map (\<lambda>i. if (1 :: int) \<le> 2 \<and> nat 2 \<le> Suc i
               then rsi_value (simple_average (nat 2) i (gains [1, 2, 4, 3, 1]))
                              (simple_average (nat 2) i (losses [1, 2, 4, 3, 1]))
               else NaN) [0, 1, 2, 3, 4]
       = [NaN, Num 100, Num 100, Num (200 / 3), Num 0]
   \<and> rsi_generate_signals \<lparr>rsi_period = 2, oversold = 30, overbought = 70\<rparr> (bars_of [1, 2, 4, 3, 1])
       = Inr rsi_example
   \<and> map (rsi_row_at \<lparr>rsi_period = 2, oversold = 30, overbought = 70\<rparr> (bars_of [1, 2, 4, 3, 1]))
       [1, 2, 3, 4] = rsi_example
   \<and> map signal rsi_example = [Some (- 1), Some (- 1), Some 0, Some 1]"
proof -
  let ?s = "\<lparr>rsi_period = 2, oversold = 30, overbought = 70\<rparr>"
  let ?d = "bars_of [1, 2, 4, 3, 1]"
  note t = rsi_simple_average_rule[where period = 2 and ps = "[1, 2, 4, 3, 1]" and s = ?s and data = ?d]
  have h: "(0 :: int) \<le> 2" by simp
  have e: "calculate_rsi (map Num [1, 2, 4, 3, 1]) 2 =
        Inr (map (\<lambda>i. if (1 :: int) \<le> 2 \<and> nat 2 \<le> Suc i
                       then rsi_value (simple_average (nat 2) i (gains [1, 2, 4, 3, 1]))
                                      (simple_average (nat 2) i (losses [1, 2, 4, 3, 1]))
                       else NaN) [0..<length [1, 2, 4, 3, 1 :: real]])"
    using t[THEN conjunct1] h by (rule mp)
  have u: "[0..<length [1, 2, 4, 3, 1 :: real]] = [0, 1, 2, 3, 4]"
    by (simp add: upt_rec)
  have r0: "calculate_rsi (map Num [1, 2, 4, 3, 1]) 2
      = Inr [NaN, Num 100, Num 100, Num (200 / 3), Num 0]"
    using rsi_column_run by simp
  have a: "map (\<lambda>i. if (1 :: int) \<le> 2 \<and> nat 2 \<le> Suc i
               then rsi_value (simple_average (nat 2) i (gains [1, 2, 4, 3, 1]))
                              (simple_average (nat 2) i (losses [1, 2, 4, 3, 1]))
               else NaN) [0, 1, 2, 3, 4]
       = [NaN, Num 100, Num 100, Num (200 / 3), Num 0]"
    using e[unfolded u r0] by (simp only: sum.inject)
  have sh: "0 \<le> rsi_period ?s" by simp
  have se: "rsi_generate_signals ?s ?d =
        Inr (map (rsi_row_at ?s ?d)
               (filter (\<lambda>i. 1 \<le> rsi_period ?s \<and> nat (rsi_period ?s) \<le> Suc i
                           \<and> \<not> (average_gain ?s ?d i = 0 \<and> average_loss ?s ?d i = 0))
                  [0..<length ?d]))"
    using t[THEN conjunct2] sh by (rule mp)
  have b: "map (rsi_row_at ?s ?d) [1, 2, 3, 4] = rsi_example"
    using se[unfolded rsi_example_kept rsi_run] by (simp only: sum.inject)
  have c: "map signal rsi_example = [Some (- 1), Some (- 1), Some 0, Some 1]"
    by (simp add: rsi_example_def)
  show ?thesis
    using a b c rsi_column_run rsi_run by (intro conjI)
qed

text \<open>
  The claim as stated fails: the code's averages are simple rolling means, not Wilder's
  smoothed ones. On the closes \<open>[1, 2, 4, 3, 1]\<close> with period 2 the code's RSI at the fourth
  bar is \<open>200 / 3\<close>, and the Wilder-smoothed RSI there is 60.
\<close>

theorem rsi_is_not_wilder_smoothed:
  "calculate_rsi [Num 1, Num 2, Num 4, Num 3, Num 1] 2
       = Inr [NaN, Num 100, Num 100, Num (200 / 3), Num 0]
   \<and> wilder_rsi 2 [1, 2, 4, 3, 1] 3 = Num 60"
  by (simp add: rsi_column_run wilder_run)

end
